theory Spec2Isabelle
  imports Complex_Main
begin

section \<open>JavaScript values\<close>

text \<open>
  The receipts are parsed JSON, so a raw value is one of the JSON shapes; \<open>JUndefined\<close>
  is what reading an absent property gives. Numbers are modelled as exact rationals:
  the model has no rounding error, no infinities and no NaN value (a conversion that
  JavaScript answers with NaN answers \<open>None\<close> here). The program computes in
  doubles, so where it adds, multiplies or rounds amounts its result can differ from the
  model's in the last place. Strings are sequences of code units below 256. An object is the list of its key/value pairs, read by its first
  entry for a key.
\<close>

datatype jsval =
    JUndefined
  | JNull
  | JBool bool
  | JNum rat
  | JStr string
  | JArr "jsval list"
  | JObj "(string \<times> jsval) list"

datatype error = TypeError | InvalidCharacterError

text \<open>Truthiness, as \<open>!!v\<close>.\<close>

fun truthy :: "jsval \<Rightarrow> bool" where
  "truthy JUndefined = False"
| "truthy JNull = False"
| "truthy (JBool b) = b"
| "truthy (JNum r) = (r \<noteq> 0)"
| "truthy (JStr s) = (s \<noteq> [])"
| "truthy (JArr xs) = True"
| "truthy (JObj kvs) = True"

text \<open>\<open>a || b\<close> on values.\<close>

definition jsOr :: "jsval \<Rightarrow> jsval \<Rightarrow> jsval" where
  "jsOr a b = (if truthy a then a else b)"

text \<open>
  Reading a property of a raw value. None of the property names the program reads from a
  raw receipt or item is a property of a string, number, boolean or array, so only an
  object can answer with something other than \<open>undefined\<close>. Reading a property of
  \<open>null\<close> or \<open>undefined\<close> throws; the callers check \<open>nullish\<close> first.
\<close>

fun getProp :: "jsval \<Rightarrow> string \<Rightarrow> jsval" where
  "getProp (JObj kvs) k = (case map_of kvs k of Some v \<Rightarrow> v | None \<Rightarrow> JUndefined)"
| "getProp v k = JUndefined"

fun nullish :: "jsval \<Rightarrow> bool" where
  "nullish JUndefined = True"
| "nullish JNull = True"
| "nullish v = False"

text \<open>\<open>k in v\<close> for a value whose \<open>typeof\<close> is \<open>object\<close>.\<close>

fun hasKey :: "jsval \<Rightarrow> string \<Rightarrow> bool" where
  "hasKey (JObj kvs) k = (k \<in> fst ` set kvs)"
| "hasKey v k = False"

fun isNumber :: "jsval \<Rightarrow> bool" where
  "isNumber (JNum r) = True"
| "isNumber v = False"

fun isString :: "jsval \<Rightarrow> bool" where
  "isString (JStr s) = True"
| "isString v = False"

fun isArray :: "jsval \<Rightarrow> bool" where
  "isArray (JArr xs) = True"
| "isArray v = False"

text \<open>\<open>typeof v === 'object'\<close>: objects, arrays and \<open>null\<close>.\<close>

fun typeofObject :: "jsval \<Rightarrow> bool" where
  "typeofObject (JObj kvs) = True"
| "typeofObject (JArr xs) = True"
| "typeofObject JNull = True"
| "typeofObject v = False"

text \<open>
  Key equality of \<open>Map\<close> and \<open>Set\<close> (SameValueZero). Primitives are compared by
  value. Arrays and objects are compared by identity in JavaScript; the payloads come
  from \<open>JSON.parse\<close>, which allocates every array and object afresh, so two of them
  are never the same key.
\<close>

fun isPrimitive :: "jsval \<Rightarrow> bool" where
  "isPrimitive (JArr xs) = False"
| "isPrimitive (JObj kvs) = False"
| "isPrimitive v = True"

definition sameValueZero :: "jsval \<Rightarrow> jsval \<Rightarrow> bool" where
  "sameValueZero a b = (isPrimitive a \<and> a = b)"

subsection \<open>Built-ins of the host\<close>

text \<open>
  The conversions and library calls whose result is fixed by the JavaScript engine and
  not by this program are parameters of the model. Every theorem holds for every host.
  \<^item> \<open>strToNumber\<close>: \<open>Number(s)\<close> for a string, \<open>None\<close> for NaN;
  \<^item> \<open>objToNumber\<close>: \<open>Number(v)\<close> for an array or object;
  \<^item> \<open>parseFloat_h\<close>: \<open>parseFloat(s)\<close>, \<open>None\<close> for NaN;
  \<^item> \<open>toStr\<close>: \<open>String(v)\<close> and template interpolation, for a value that is not a string;
  \<^item> \<open>btoa_h\<close>: \<open>btoa(s)\<close>, \<open>None\<close> when it throws;
  \<^item> \<open>dateParse\<close>: the time value of \<open>new Date(v)\<close>, \<open>None\<close> for an invalid date;
  \<^item> \<open>toLowerCase_h\<close>: \<open>s.toLowerCase()\<close>.
\<close>

record host =
  strToNumber :: "string \<Rightarrow> rat option"
  objToNumber :: "jsval \<Rightarrow> rat option"
  parseFloat_h :: "string \<Rightarrow> rat option"
  toStr :: "jsval \<Rightarrow> string"
  btoa_h :: "string \<Rightarrow> string option"
  dateParse :: "jsval \<Rightarrow> int option"
  toLowerCase_h :: "string \<Rightarrow> string"

text \<open>\<open>Number(v)\<close>; \<open>None\<close> is NaN.\<close>

fun toNumber :: "host \<Rightarrow> jsval \<Rightarrow> rat option" where
  "toNumber h JUndefined = None"
| "toNumber h JNull = Some 0"
| "toNumber h (JBool b) = Some (if b then 1 else 0)"
| "toNumber h (JNum r) = Some r"
| "toNumber h (JStr s) = strToNumber h s"
| "toNumber h (JArr xs) = objToNumber h (JArr xs)"
| "toNumber h (JObj kvs) = objToNumber h (JObj kvs)"

text \<open>\<open>Number(v) || d\<close>: NaN and 0 are falsy.\<close>

definition numberOr :: "host \<Rightarrow> jsval \<Rightarrow> rat \<Rightarrow> rat" where
  "numberOr h v d = (case toNumber h v of None \<Rightarrow> d | Some r \<Rightarrow> if r = 0 then d else r)"

text \<open>\<open>String(v)\<close> and \<open>`${v}`\<close>.\<close>

fun String_js :: "host \<Rightarrow> jsval \<Rightarrow> string" where
  "String_js h (JStr s) = s"
| "String_js h v = toStr h v"

text \<open>\<open>Math.round(x * 100) / 100\<close>; \<open>Math.round\<close> rounds a half towards plus infinity.\<close>

definition round2 :: "rat \<Rightarrow> rat" where
  "round2 x = of_int \<lfloor>x * 100 + 1 / 2\<rfloor> / 100"

text \<open>\<open>s.startsWith('/')\<close>.\<close>

fun startsWithSlash :: "string \<Rightarrow> bool" where
  "startsWithSlash [] = False"
| "startsWithSlash (c # cs) = (c = CHR ''/'')"

text \<open>\<open>s.includes(t)\<close>: \<open>t\<close> occurs in \<open>s\<close> as a substring.\<close>

fun isPrefix :: "string \<Rightarrow> string \<Rightarrow> bool" where
  "isPrefix [] ys = True"
| "isPrefix (x # xs) [] = False"
| "isPrefix (x # xs) (y # ys) = (x = y \<and> isPrefix xs ys)"

fun includes_js :: "string \<Rightarrow> string \<Rightarrow> bool" where
  "includes_js [] t = (t = [])"
| "includes_js (c # cs) t = (isPrefix t (c # cs) \<or> includes_js cs t)"

text \<open>Running a fallible function over an array; the first throw ends the run.\<close>

fun mapE :: "('a \<Rightarrow> error + 'b) \<Rightarrow> 'a list \<Rightarrow> error + 'b list" where
  "mapE f [] = Inr []"
| "mapE f (x # xs) =
     (case f x of
        Inl e \<Rightarrow> Inl e
      | Inr y \<Rightarrow> (case mapE f xs of Inl e \<Rightarrow> Inl e | Inr ys \<Rightarrow> Inr (y # ys)))"

section \<open>Dates\<close>

text \<open>
  A \<open>Date\<close> object holds a time value in milliseconds, or is invalid. The model reads
  time values as local wall-clock time (the local offset from UTC is taken as fixed), so
  \<open>getFullYear\<close> and \<open>new Date(year, month, day)\<close> are the calendar functions of the
  language standard applied directly: \<open>DaysInYear\<close>, \<open>DayFromYear\<close>, \<open>MakeDay\<close> and
  \<open>YearFromTime\<close> follow its definitions.
\<close>

datatype jsdate = InvalidDate | TimeValue int

definition msPerDay :: int where
  "msPerDay = 86400000"

definition DaysInYear :: "int \<Rightarrow> int" where
  "DaysInYear y =
     (if y mod 4 \<noteq> 0 then 365
      else if y mod 100 \<noteq> 0 then 366
      else if y mod 400 \<noteq> 0 then 365
      else 366)"

definition DayFromYear :: "int \<Rightarrow> int" where
  "DayFromYear y =
     365 * (y - 1970) + (y - 1969) div 4 - (y - 1901) div 100 + (y - 1601) div 400"

text \<open>
  The year of a day number is the largest \<open>y\<close> with \<open>DayFromYear y \<le> d\<close>: the search
  walks up from a year that is not after it.
\<close>

function yearUp :: "int \<Rightarrow> int \<Rightarrow> int" where
  "yearUp d y = (if DayFromYear (y + 1) \<le> d then yearUp d (y + 1) else y)"
  by pat_completeness auto

definition YearFromDay :: "int \<Rightarrow> int" where
  "YearFromDay d = yearUp d (if 0 \<le> d then 1970 + d div 366 else 1970 + d div 365)"

text \<open>\<open>date.getFullYear()\<close> of a valid date.\<close>

definition getFullYear :: "int \<Rightarrow> int" where
  "getFullYear t = YearFromDay (t div msPerDay)"

text \<open>The days of the year before month \<open>mn\<close> (0 for January to 11 for December).\<close>

definition monthOffset :: "int \<Rightarrow> bool \<Rightarrow> int" where
  "monthOffset mn leap =
     (if mn = 0 then 0
      else if mn = 1 then 31
      else (if mn = 2 then 59
            else if mn = 3 then 90
            else if mn = 4 then 120
            else if mn = 5 then 151
            else if mn = 6 then 181
            else if mn = 7 then 212
            else if mn = 8 then 243
            else if mn = 9 then 273
            else if mn = 10 then 304
            else 334) + (if leap then 1 else 0))"

text \<open>\<open>MakeDay\<close>: months outside 0..11 carry into the year, days outside the month carry on.\<close>

definition MakeDay :: "int \<Rightarrow> int \<Rightarrow> int \<Rightarrow> int" where
  "MakeDay y m dt =
     (let ym = y + m div 12; mn = m mod 12
      in DayFromYear ym + monthOffset mn (DaysInYear ym = 366) + dt - 1)"

text \<open>Truncation towards zero, as the constructor applies to its arguments.\<close>

definition toInteger :: "rat \<Rightarrow> int" where
  "toInteger r = (if 0 \<le> r then \<lfloor>r\<rfloor> else \<lceil>r\<rceil>)"

text \<open>
  \<open>new Date(year, month, day)\<close>: local midnight of that day. A year from 0 to 99 stands
  for 1900 to 1999, and a time value beyond 8.64e15 milliseconds is an invalid date.
\<close>

definition newDate :: "int \<Rightarrow> rat \<Rightarrow> rat \<Rightarrow> jsdate" where
  "newDate year month day =
     (let yr = (if 0 \<le> year \<and> year \<le> 99 then 1900 + year else year);
          tv = MakeDay yr (toInteger month) (toInteger day) * msPerDay
      in if \<bar>tv\<bar> > 8640000000000000 then InvalidDate else TimeValue tv)"

text \<open>\<open>a >= b\<close>, \<open>a < b\<close> and \<open>a > b\<close> on dates: false when either is invalid.\<close>

fun dateGe :: "jsdate \<Rightarrow> jsdate \<Rightarrow> bool" where
  "dateGe (TimeValue a) (TimeValue b) = (a \<ge> b)"
| "dateGe a b = False"

fun dateLt :: "jsdate \<Rightarrow> jsdate \<Rightarrow> bool" where
  "dateLt (TimeValue a) (TimeValue b) = (a < b)"
| "dateLt a b = False"

fun dateGt :: "jsdate \<Rightarrow> jsdate \<Rightarrow> bool" where
  "dateGt (TimeValue a) (TimeValue b) = (a > b)"
| "dateGt a b = False"

text \<open>The length of month \<open>m\<close> (1 for January to 12 for December) of year \<open>y\<close>.\<close>

definition DaysInMonth :: "int \<Rightarrow> int \<Rightarrow> int" where
  "DaysInMonth y m =
     (if m = 2 then (if DaysInYear y = 366 then 29 else 28)
      else if m = 4 \<or> m = 6 \<or> m = 9 \<or> m = 11 then 30
      else 31)"

section \<open>Normalizer\<close>

subsection \<open>Text helpers\<close>

text \<open>The characters \<open>\\s\<close> and \<open>trim\<close> treat as white space, among code units below 256.\<close>

definition isSpace :: "char \<Rightarrow> bool" where
  "isSpace c = ((of_char c :: nat) \<in> {9, 10, 11, 12, 13, 32, 160})"

definition isNewline :: "char \<Rightarrow> bool" where
  "isNewline c = ((of_char c :: nat) = 10)"

definition isDigit :: "char \<Rightarrow> bool" where
  "isDigit c = (48 \<le> (of_char c :: nat) \<and> (of_char c :: nat) \<le> 57)"

definition trim :: "string \<Rightarrow> string" where
  "trim s = rev (dropWhile isSpace (rev (dropWhile isSpace s)))"

text \<open>\<open>s.replace(/p+/g, ' ')\<close>: every maximal run of \<open>p\<close> characters becomes one space.\<close>

function replaceRuns :: "(char \<Rightarrow> bool) \<Rightarrow> string \<Rightarrow> string" where
  "replaceRuns p [] = []"
| "replaceRuns p (c # cs) =
     (if p c then CHR '' '' # replaceRuns p (dropWhile p cs) else c # replaceRuns p cs)"
  by pat_completeness auto
termination
  by (relation "measure (\<lambda>(p, s). length s)") (auto simp: length_dropWhile_le less_Suc_eq_le)

text \<open>\<open>cleanText\<close>: anything that is not a non-empty string gives the empty string.\<close>

fun cleanText :: "jsval \<Rightarrow> string" where
  "cleanText (JStr s) =
     (if s = [] then [] else take 500 (replaceRuns isNewline (replaceRuns isSpace (trim s))))"
| "cleanText v = []"

text \<open>\<open>s.match(/\\/(\\d+)/)\<close>: the digits after the first slash that is followed by a digit.\<close>

fun matchRef :: "string \<Rightarrow> string option" where
  "matchRef [] = None"
| "matchRef (c # cs) =
     (if c = CHR ''/'' \<and> takeWhile isDigit cs \<noteq> [] then Some (takeWhile isDigit cs)
      else matchRef cs)"

subsection \<open>Items\<close>

text \<open>
  The canonical item \<open>normalizeItem\<close> builds. \<open>unitPrice\<close> is \<open>None\<close> when it is NaN
  (a unit price field that is no number). \<open>discountAppliesTo\<close> is \<open>JUndefined\<close> while
  the property is absent.
\<close>

record item =
  itemNumber :: string
  amount :: rat
  unit :: rat
  itemDescription01 :: string
  itemDescription02 :: string
  itemActualName :: string
  normalizedName :: string
  unitPrice :: "rat option"
  isDiscount :: bool
  taxFlag :: jsval
  itemDepartmentNumber :: jsval
  itemUnitPriceAmount :: jsval
  fuelUnitQuantity :: jsval
  fuelGradeCode :: jsval
  fuelGradeDescription :: jsval
  fuelUomCode :: jsval
  fullItemImage :: jsval
  catEntryId :: jsval
  discountAppliesTo :: jsval

text \<open>The unit of a raw item: a number as it is, a string through \<open>parseFloat\<close> with 1 for NaN.\<close>

fun unitOf :: "host \<Rightarrow> jsval \<Rightarrow> rat" where
  "unitOf h (JNum r) = r"
| "unitOf h (JStr s) = (case parseFloat_h h s of None \<Rightarrow> 1 | Some r \<Rightarrow> r)"
| "unitOf h v = 0"

text \<open>
  The unit price before rounding: \<open>amount / unit\<close>, else the unit price field through
  \<open>Number\<close>, else the amount.
\<close>

definition unitPriceOf :: "host \<Rightarrow> rat \<Rightarrow> rat \<Rightarrow> jsval \<Rightarrow> rat option" where
  "unitPriceOf h amt u upa =
     (if u \<noteq> 0 then Some (amt / u)
      else if truthy upa then toNumber h upa
      else Some amt)"

text \<open>
  \<open>f && f.startsWith('/')\<close> for the raw French description: a truthy value that is not a
  string has no \<open>startsWith\<close>, and the call throws.
\<close>

fun frenchRef :: "jsval \<Rightarrow> error + bool" where
  "frenchRef (JStr s) = Inr (s \<noteq> [] \<and> startsWithSlash s)"
| "frenchRef v = (if truthy v then Inl TypeError else Inr False)"

text \<open>\<open>hasItemReference\<close>: the three disjuncts in order, the later ones only when needed.\<close>

definition hasItemReference :: "string \<Rightarrow> string \<Rightarrow> jsval \<Rightarrow> error + bool" where
  "hasItemReference actualName desc01 french =
     (if actualName \<noteq> [] \<and> startsWithSlash actualName then Inr True
      else if desc01 \<noteq> [] \<and> startsWithSlash desc01 then Inr True
      else frenchRef french)"

text \<open>\<open>isReturn\<close> and \<open>isDiscount\<close>, as the two lines of \<open>normalizeItem\<close> compute them.\<close>

definition isReturn :: "rat \<Rightarrow> rat \<Rightarrow> bool \<Rightarrow> bool" where
  "isReturn amt u hasRef = (amt < 0 \<and> u < 0 \<and> \<not> hasRef)"

definition isDiscountOf :: "rat \<Rightarrow> rat \<Rightarrow> bool \<Rightarrow> bool" where
  "isDiscountOf amt u hasRef = (amt < 0 \<and> (hasRef \<or> (\<not> isReturn amt u hasRef \<and> u \<ge> 0)))"

text \<open>
  The string \<open>match\<close> is called on:
  \<open>itemActualName || itemDescription01 || item.frenchItemDescription1 || ''\<close>.
\<close>

definition refSource :: "string \<Rightarrow> string \<Rightarrow> jsval \<Rightarrow> error + string" where
  "refSource actualName desc01 french =
     (if actualName \<noteq> [] then Inr actualName
      else if desc01 \<noteq> [] then Inr desc01
      else if truthy french then (case french of JStr s \<Rightarrow> Inr s | _ \<Rightarrow> Inl TypeError)
      else Inr [])"

definition discountRef :: "bool \<Rightarrow> bool \<Rightarrow> string \<Rightarrow> string \<Rightarrow> jsval \<Rightarrow> error + jsval" where
  "discountRef disc hasRef actualName desc01 french =
     (if disc \<and> hasRef then
        (case refSource actualName desc01 french of
           Inl e \<Rightarrow> Inl e
         | Inr s \<Rightarrow> Inr (case matchRef s of Some d \<Rightarrow> JStr d | None \<Rightarrow> JNull))
      else Inr JUndefined)"

definition normalizedNameOf ::
  "string \<Rightarrow> string \<Rightarrow> string \<Rightarrow> bool \<Rightarrow> jsval \<Rightarrow> string \<Rightarrow> string" where
  "normalizedNameOf actualName desc01 desc02 disc applies itemNum =
     (if actualName \<noteq> [] \<and> \<not> startsWithSlash actualName then actualName
      else if desc01 \<noteq> [] \<and> \<not> startsWithSlash desc01 then
        desc01 @ (if desc02 \<noteq> [] then '' '' @ desc02 else [])
      else if disc \<and> truthy applies then
        ''Discount on Item '' @ (case applies of JStr d \<Rightarrow> d | _ \<Rightarrow> [])
      else ''Item '' @ itemNum)"

definition normalizeItem :: "host \<Rightarrow> jsval \<Rightarrow> error + item" where
  "normalizeItem h raw =
     (if nullish raw then Inl TypeError
      else
        let u = unitOf h (getProp raw ''unit'');
            itemNum = String_js h (jsOr (getProp raw ''itemNumber'') (JStr []));
            amt = numberOr h (getProp raw ''amount'') 0;
            desc01 = cleanText (jsOr (getProp raw ''itemDescription01'') (JStr []));
            desc02 = cleanText (jsOr (getProp raw ''itemDescription02'') (JStr []));
            actualName = cleanText (jsOr (getProp raw ''itemActualName'') (JStr []));
            upa = jsOr (getProp raw ''itemUnitPriceAmount'') JNull;
            french = getProp raw ''frenchItemDescription1''
        in
          (case hasItemReference actualName desc01 french of
             Inl e \<Rightarrow> Inl e
           | Inr hasRef \<Rightarrow>
               let disc = isDiscountOf amt u hasRef in
               (case discountRef disc hasRef actualName desc01 french of
                  Inl e \<Rightarrow> Inl e
                | Inr applies \<Rightarrow>
                    Inr \<lparr> itemNumber = itemNum,
                          amount = amt,
                          unit = u,
                          itemDescription01 = desc01,
                          itemDescription02 = desc02,
                          itemActualName = actualName,
                          normalizedName =
                            normalizedNameOf actualName desc01 desc02 disc applies itemNum,
                          unitPrice = map_option round2 (unitPriceOf h amt u upa),
                          isDiscount = disc,
                          taxFlag = jsOr (getProp raw ''taxFlag'') JNull,
                          itemDepartmentNumber = jsOr (getProp raw ''itemDepartmentNumber'') JNull,
                          itemUnitPriceAmount = upa,
                          fuelUnitQuantity =
                            (if getProp raw ''fuelUnitQuantity'' \<noteq> JUndefined
                             then getProp raw ''fuelUnitQuantity'' else JNull),
                          fuelGradeCode = jsOr (getProp raw ''fuelGradeCode'') JNull,
                          fuelGradeDescription = jsOr (getProp raw ''fuelGradeDescription'') JNull,
                          fuelUomCode = jsOr (getProp raw ''fuelUomCode'') JNull,
                          fullItemImage = jsOr (getProp raw ''fullItemImage'') JNull,
                          catEntryId = jsOr (getProp raw ''catEntryId'') JNull,
                          discountAppliesTo = applies \<rparr>)))"

subsection \<open>Receipts\<close>

text \<open>
  The canonical receipt \<open>normalizeReceipt\<close> builds. \<open>transactionDateTime\<close> is \<open>None\<close>
  for \<open>null\<close>; \<open>original\<close> is the property \<open>_original\<close>; \<open>id_r\<close> is \<open>id\<close> and
  \<open>total_r\<close> is \<open>total\<close>.
\<close>

record receipt =
  id_r :: string
  processedAt :: jsdate
  sourceFile :: string
  transactionDate :: jsval
  transactionDateTime :: "jsdate option"
  transactionType :: jsval
  warehouseNumber :: rat
  warehouseName :: string
  warehouseCity :: string
  warehouseState :: jsval
  warehouseCountry :: jsval
  warehouseFullAddress :: string
  total_r :: rat
  subTotal :: rat
  taxes :: rat
  instantSavings :: rat
  itemArray :: "item list"
  tenderArray :: jsval
  couponArray :: jsval
  membershipNumber :: jsval
  receiptType :: jsval
  documentType :: jsval
  channel :: jsval
  transactionNumber :: jsval
  totalItemCount :: jsval
  subTaxes :: jsval
  original :: jsval

text \<open>\<open>parseDate\<close>: a falsy argument and an unparsable one both give \<open>null\<close>.\<close>

definition parseDate :: "host \<Rightarrow> jsval \<Rightarrow> jsdate option" where
  "parseDate h v = (if \<not> truthy v then None else map_option TimeValue (dateParse h v))"

definition generateReceiptId :: "host \<Rightarrow> jsval \<Rightarrow> nat \<Rightarrow> error + string" where
  "generateReceiptId h r index =
     (let date = jsOr (getProp r ''transactionDate'') (JStr []);
          warehouse = jsOr (getProp r ''warehouseNumber'') (JStr []);
          transNum = jsOr (getProp r ''transactionNumber'') (JStr []);
          total = jsOr (getProp r ''total'') (JStr [])
      in if truthy transNum \<and> truthy warehouse \<and> truthy date then
           Inr (String_js h warehouse @ ''-'' @ String_js h date @ ''-'' @ String_js h transNum)
         else
           (case btoa_h h (String_js h date @ ''-'' @ String_js h warehouse @ ''-'' @
                           String_js h total @ ''-'' @ String_js h (JNum (of_nat index))) of
              None \<Rightarrow> Inl InvalidCharacterError
            | Some b \<Rightarrow> Inr (''receipt-'' @ take 16 b)))"

definition isOnlineOrder :: "jsval \<Rightarrow> bool" where
  "isOnlineOrder r =
     (getProp r ''channel'' = JStr ''online'' \<or>
      getProp r ''documentType'' = JStr ''ONLINE'' \<or>
      getProp r ''documentType'' = JStr ''OnlineReceipts'')"

text \<open>The sum of the discount lines, as the \<open>forEach\<close> over the normalized items adds it up.\<close>

definition sumDiscounts :: "item list \<Rightarrow> rat" where
  "sumDiscounts items =
     foldl (\<lambda>totalDiscounts it.
              if isDiscount it \<and> amount it < 0 then totalDiscounts + \<bar>amount it\<bar>
              else totalDiscounts) 0 items"

text \<open>
  \<open>normalizeReceipt\<close>. The reading of the clock (\<open>new Date()\<close> for \<open>processedAt\<close>) is the
  argument \<open>now\<close>.
\<close>

definition normalizeReceipt :: "host \<Rightarrow> int \<Rightarrow> jsval \<Rightarrow> nat \<Rightarrow> string \<Rightarrow> error + receipt" where
  "normalizeReceipt h now r index file =
     (if nullish r then Inl TypeError
      else
        (case generateReceiptId h r index of
           Inl e \<Rightarrow> Inl e
         | Inr rid \<Rightarrow>
             (case (case getProp r ''itemArray'' of
                      JArr raws \<Rightarrow> mapE (normalizeItem h) raws
                    | _ \<Rightarrow> Inr []) of
                Inl e \<Rightarrow> Inl e
              | Inr items \<Rightarrow>
                  Inr \<lparr> id_r = rid,
                        processedAt = TimeValue now,
                        sourceFile = file,
                        transactionDate = jsOr (getProp r ''transactionDate'') JNull,
                        transactionDateTime =
                          parseDate h (jsOr (getProp r ''transactionDateISO'')
                                        (jsOr (getProp r ''transactionDateTime'')
                                          (getProp r ''transactionDate''))),
                        transactionType =
                          (let t = jsOr (getProp r ''transactionType'') (JStr ''Sales'')
                           in if t = JStr ''Delivered'' then JStr ''Sales'' else t),
                        warehouseNumber = numberOr h (getProp r ''warehouseNumber'') 0,
                        warehouseName =
                          (if isOnlineOrder r then ''Online''
                           else cleanText (jsOr (getProp r ''warehouseName'') (JStr []))),
                        warehouseCity = cleanText (jsOr (getProp r ''warehouseCity'') (JStr [])),
                        warehouseState =
                          jsOr (getProp r ''warehouseState'')
                            (jsOr (getProp r ''warehouseProvince'') JNull),
                        warehouseCountry = jsOr (getProp r ''warehouseCountry'') JNull,
                        warehouseFullAddress =
                          cleanText (jsOr (getProp r ''warehouseFullAddress'') (JStr [])),
                        total_r = numberOr h (getProp r ''total'') 0,
                        subTotal = numberOr h (getProp r ''subTotal'') 0,
                        taxes = numberOr h (getProp r ''taxes'') 0,
                        instantSavings =
                          (if isOnlineOrder r \<and> truthy (getProp r ''orderDiscountAmount'')
                           then numberOr h (getProp r ''orderDiscountAmount'') 0
                           else sumDiscounts items),
                        itemArray = items,
                        tenderArray = jsOr (getProp r ''tenderArray'') (JArr []),
                        couponArray = jsOr (getProp r ''couponArray'') (JArr []),
                        membershipNumber =
                          (if truthy (getProp r ''membershipNumber'')
                           then JStr (String_js h (getProp r ''membershipNumber'')) else JNull),
                        receiptType = jsOr (getProp r ''receiptType'') JNull,
                        documentType = jsOr (getProp r ''documentType'') JNull,
                        channel = jsOr (getProp r ''channel'') JNull,
                        transactionNumber = jsOr (getProp r ''transactionNumber'') JNull,
                        totalItemCount =
                          (if truthy (getProp r ''totalItemCount'') then getProp r ''totalItemCount''
                           else JNum (of_nat (length items))),
                        subTaxes = jsOr (getProp r ''subTaxes'') JNull,
                        original = r \<rparr>)))"

section \<open>Deduplicator\<close>

text \<open>
  The key of a receipt: \<open>receipt._original?.transactionBarcode || receipt.id\<close>.
\<close>

definition dedupKey :: "receipt \<Rightarrow> jsval" where
  "dedupKey r =
     jsOr (if nullish (original r) then JUndefined else getProp (original r) ''transactionBarcode'')
          (JStr (id_r r))"

text \<open>
  A \<open>Map\<close> as the list of its entries in insertion order. Setting a key that is present
  replaces the value in place; a new key goes to the end.
\<close>

fun mapGet :: "(jsval \<times> 'v) list \<Rightarrow> jsval \<Rightarrow> 'v option" where
  "mapGet [] k = None"
| "mapGet ((k', v) # m) k = (if sameValueZero k' k then Some v else mapGet m k)"

fun mapSet :: "(jsval \<times> 'v) list \<Rightarrow> jsval \<Rightarrow> 'v \<Rightarrow> (jsval \<times> 'v) list" where
  "mapSet [] k v = [(k, v)]"
| "mapSet ((k', v') # m) k v =
     (if sameValueZero k' k then (k', v) # m else (k', v') # mapSet m k v)"

text \<open>The body of the inner \<open>forEach\<close> of \<open>mergeReceipts\<close>.\<close>

definition mergeStep :: "(jsval \<times> receipt) list \<Rightarrow> receipt \<Rightarrow> (jsval \<times> receipt) list" where
  "mergeStep receiptMap r =
     (let key = dedupKey r
      in case mapGet receiptMap key of
           Some existing \<Rightarrow>
             (if length (itemArray r) > length (itemArray existing)
              then mapSet receiptMap key r
              else receiptMap)
         | None \<Rightarrow> mapSet receiptMap key r)"

definition mergeReceipts :: "receipt list list \<Rightarrow> receipt list" where
  "mergeReceipts receiptsArray =
     map snd (foldl (\<lambda>receiptMap receipts. foldl mergeStep receiptMap receipts) [] receiptsArray)"

text \<open>
  The invariant of the receipt map: an entry's key is the key of its receipt, and no two
  entries have the same key.
\<close>

fun wfMap :: "(jsval \<times> receipt) list \<Rightarrow> bool" where
  "wfMap [] = True"
| "wfMap ((k, v) # m) =
     (k = dedupKey v \<and> (\<forall>(k', v') \<in> set m. \<not> sameValueZero k k') \<and> wfMap m)"

section \<open>Validator\<close>

text \<open>
  The error and warning messages, by kind; the arguments are the values the message text
  interpolates (receipt index, item index, field or file name).
\<close>

datatype verror =
    RootNotArray string
  | ArrayEmpty string
  | NotObject nat
  | MissingField nat string
  | MissingDate nat
  | DateNotString nat
  | TotalNotNumber nat
  | WarehouseNotNumber nat
  | ItemArrayNotArray nat
  | TenderNotArray nat
  | CouponNotArray nat
  | ItemNotObject nat nat
  | ItemMissingField nat nat string
  | ItemAmountNotNumber nat nat
  | ItemUnitNotNumberOrString nat nat
  | ItemNumberNotString nat nat

datatype vwarning =
    ItemArrayEmpty nat
  | NoDescription nat nat
  | UnexpectedType nat jsval
  | TotalMismatch nat

record validation =
  valid :: bool
  errors :: "verror list"
  warnings :: "vwarning list"

record fileValidation = validation +
  receipts :: "jsval list"
  totalCount :: "nat option"
  validCount :: "nat option"
  invalidCount :: "nat option"
  filename :: "string option"

definition ITEM_required :: "string list" where
  "ITEM_required = [''itemNumber'', ''amount'', ''unit'']"

definition RECEIPT_required :: "string list" where
  "RECEIPT_required = [''transactionType'', ''total'', ''itemArray'', ''warehouseNumber'']"

text \<open>\<open>validateItem\<close> returns its errors and its warnings.\<close>

definition validateItem :: "jsval \<Rightarrow> nat \<Rightarrow> nat \<Rightarrow> verror list \<times> vwarning list" where
  "validateItem it receiptIndex itemIndex =
     (if \<not> truthy it \<or> \<not> typeofObject it then ([ItemNotObject receiptIndex itemIndex], [])
      else
        (concat (map (\<lambda>field. if \<not> hasKey it field
                               then [ItemMissingField receiptIndex itemIndex field] else [])
                     ITEM_required)
         @ (if getProp it ''amount'' \<noteq> JNull \<and> \<not> isNumber (getProp it ''amount'')
            then [ItemAmountNotNumber receiptIndex itemIndex] else [])
         @ (if getProp it ''unit'' \<noteq> JNull \<and> \<not> isNumber (getProp it ''unit'')
                 \<and> \<not> isString (getProp it ''unit'')
            then [ItemUnitNotNumberOrString receiptIndex itemIndex] else [])
         @ (if truthy (getProp it ''itemNumber'') \<and> \<not> isString (getProp it ''itemNumber'')
            then [ItemNumberNotString receiptIndex itemIndex] else []),
         (if \<not> truthy (getProp it ''itemDescription01'') \<and> \<not> truthy (getProp it ''itemActualName'')
          then [NoDescription receiptIndex itemIndex] else [])))"

definition validTypes :: "jsval list" where
  "validTypes = [JStr ''Sales'', JStr ''Refund'', JStr ''Return'', JStr ''Delivered'',
                 JStr ''Shipped'', JStr ''Cancelled'', JStr ''Returned'']"

text \<open>
  The validator puts raw values into a message template and into arithmetic before it
  has checked their type. Converting an object to a string or a number calls its
  \<open>toString\<close> and \<open>valueOf\<close>: an object from \<open>JSON.parse\<close> inherits both, the
  inherited \<open>valueOf\<close> answers the object itself, and an own property named \<open>toString\<close>
  hides the inherited one with a value that is no function. Such an object has no
  primitive value and the conversion throws a \<open>TypeError\<close>. An array is converted by
  joining the strings of its elements (\<open>null\<close> and \<open>undefined\<close> give the empty
  string), so it throws when one of its elements does. No other value throws.
\<close>

fun toPrimitiveThrows :: "jsval \<Rightarrow> bool" where
  "toPrimitiveThrows (JObj kvs) = (''toString'' \<in> fst ` set kvs)"
| "toPrimitiveThrows (JArr xs) = (\<exists>x \<in> set xs. toPrimitiveThrows x)"
| "toPrimitiveThrows v = False"

text \<open>
  The consistency check \<open>Math.abs(subTotal + taxes - discount - total) > 0.02\<close> on raw
  values. All four operands are converted, so the check throws when the conversion of one
  of them does. Otherwise JavaScript coerces them and computes in doubles (for 10, 0.53, 0
  and 10.55 the difference comes out just above 0.02); the outcome of the comparison is
  the parameter \<open>exceeds\<close>.
\<close>

definition totalMismatch ::
  "(jsval \<Rightarrow> jsval \<Rightarrow> jsval \<Rightarrow> jsval \<Rightarrow> bool) \<Rightarrow> jsval \<Rightarrow> jsval \<Rightarrow> jsval \<Rightarrow> jsval \<Rightarrow>
   error + bool" where
  "totalMismatch exceeds sub tax disc tot =
     (if toPrimitiveThrows sub \<or> toPrimitiveThrows tax \<or> toPrimitiveThrows disc
         \<or> toPrimitiveThrows tot
      then Inl TypeError
      else Inr (exceeds sub tax disc tot))"

text \<open>The errors and warnings of the items of a receipt, in order, with their indices.\<close>

fun validateItems :: "jsval list \<Rightarrow> nat \<Rightarrow> nat \<Rightarrow> verror list \<times> vwarning list" where
  "validateItems [] index itemIndex = ([], [])"
| "validateItems (it # its) index itemIndex =
     (let (es, ws) = validateItem it index itemIndex;
          (es', ws') = validateItems its index (Suc itemIndex)
      in (es @ es', ws @ ws'))"

text \<open>
  \<open>validateReceipt\<close>. The warning for an unexpected transaction type interpolates the
  raw \<open>transactionType\<close> into its message, and the consistency check computes with the raw
  \<open>subTotal\<close>, \<open>taxes\<close>, \<open>orderDiscountAmount\<close> and \<open>total\<close>; both can throw, and nothing
  in the validator catches.
\<close>

definition validateReceipt ::
  "(jsval \<Rightarrow> jsval \<Rightarrow> jsval \<Rightarrow> jsval \<Rightarrow> bool) \<Rightarrow> jsval \<Rightarrow> nat \<Rightarrow> error + validation" where
  "validateReceipt exceeds r index =
     (if \<not> truthy r \<or> \<not> typeofObject r then
        Inr \<lparr> valid = False, errors = [NotObject index], warnings = [] \<rparr>
      else
        let itemsResult =
              (case getProp r ''itemArray'' of
                 JArr its \<Rightarrow>
                   (if its = [] then ([], [ItemArrayEmpty index]) else validateItems its index 0)
               | _ \<Rightarrow> ([ItemArrayNotArray index], []));
            es =
              concat (map (\<lambda>field. if \<not> hasKey r field \<or> getProp r field = JNull
                                          \<or> getProp r field = JUndefined
                                     then [MissingField index field] else [])
                          RECEIPT_required)
              @ (if \<not> truthy (getProp r ''transactionDate'')
                    \<and> \<not> truthy (getProp r ''transactionDateISO'')
                    \<and> \<not> truthy (getProp r ''transactionDateTime'')
                 then [MissingDate index] else [])
              @ (if truthy (getProp r ''transactionDate'') \<and> \<not> isString (getProp r ''transactionDate'')
                 then [DateNotString index] else [])
              @ (if getProp r ''total'' \<noteq> JNull \<and> getProp r ''total'' \<noteq> JStr []
                    \<and> \<not> isNumber (getProp r ''total'')
                 then [TotalNotNumber index] else [])
              @ (if getProp r ''warehouseNumber'' \<noteq> JNull \<and> \<not> isNumber (getProp r ''warehouseNumber'')
                 then [WarehouseNotNumber index] else [])
              @ fst itemsResult
              @ (if truthy (getProp r ''tenderArray'') \<and> \<not> isArray (getProp r ''tenderArray'')
                 then [TenderNotArray index] else [])
              @ (if truthy (getProp r ''couponArray'') \<and> \<not> isArray (getProp r ''couponArray'')
                 then [CouponNotArray index] else []);
            unexpected = (truthy (getProp r ''transactionType'')
                          \<and> getProp r ''transactionType'' \<notin> set validTypes)
        in if unexpected \<and> toPrimitiveThrows (getProp r ''transactionType'') then Inl TypeError
           else
             (case (if truthy (getProp r ''subTotal'') \<and> truthy (getProp r ''taxes'')
                       \<and> truthy (getProp r ''total'')
                    then totalMismatch exceeds (getProp r ''subTotal'') (getProp r ''taxes'')
                           (jsOr (getProp r ''orderDiscountAmount'') (JNum 0)) (getProp r ''total'')
                    else Inr False) of
                Inl e \<Rightarrow> Inl e
              | Inr mismatch \<Rightarrow>
                  Inr \<lparr> valid = (es = []), errors = es,
                        warnings =
                          snd itemsResult
                          @ (if unexpected
                             then [UnexpectedType index (getProp r ''transactionType'')] else [])
                          @ (if mismatch then [TotalMismatch index] else []) \<rparr>))"

text \<open>
  The body of the \<open>forEach\<close> of \<open>validateJSONStructure\<close>; the state is
  \<open>(validReceipts, errors, warnings)\<close>. A throw of \<open>validateReceipt\<close> ends the loop and
  the call.
\<close>

definition validateStep ::
  "(jsval \<Rightarrow> jsval \<Rightarrow> jsval \<Rightarrow> jsval \<Rightarrow> bool) \<Rightarrow>
   jsval list \<times> verror list \<times> vwarning list \<Rightarrow> nat \<times> jsval \<Rightarrow>
   error + jsval list \<times> verror list \<times> vwarning list" where
  "validateStep exceeds st ir =
     (case st of (validReceipts, es, ws) \<Rightarrow>
        (case ir of (index, r) \<Rightarrow>
           (case validateReceipt exceeds r index of
              Inl e \<Rightarrow> Inl e
            | Inr validation \<Rightarrow>
                Inr (if valid validation then validReceipts @ [r] else validReceipts,
                     if valid validation then es else es @ errors validation,
                     ws @ warnings validation))))"

fun validateLoop ::
  "(jsval \<Rightarrow> jsval \<Rightarrow> jsval \<Rightarrow> jsval \<Rightarrow> bool) \<Rightarrow>
   jsval list \<times> verror list \<times> vwarning list \<Rightarrow> (nat \<times> jsval) list \<Rightarrow>
   error + jsval list \<times> verror list \<times> vwarning list" where
  "validateLoop exceeds st [] = Inr st"
| "validateLoop exceeds st (ir # irs) =
     (case validateStep exceeds st ir of
        Inl e \<Rightarrow> Inl e
      | Inr st' \<Rightarrow> validateLoop exceeds st' irs)"

definition validateJSONStructure ::
  "(jsval \<Rightarrow> jsval \<Rightarrow> jsval \<Rightarrow> jsval \<Rightarrow> bool) \<Rightarrow> jsval \<Rightarrow> string \<Rightarrow> error + fileValidation" where
  "validateJSONStructure exceeds data file =
     (case data of
        JArr rs \<Rightarrow>
          (if rs = [] then
             Inr \<lparr> valid = False, errors = [ArrayEmpty file], warnings = [], receipts = [],
                   totalCount = None, validCount = None, invalidCount = None, filename = None \<rparr>
           else
             (case validateLoop exceeds ([], [], []) (enumerate 0 rs) of
                Inl e \<Rightarrow> Inl e
              | Inr (validReceipts, es, ws) \<Rightarrow>
                  Inr \<lparr> valid = (length validReceipts > 0), errors = es, warnings = ws,
                        receipts = validReceipts,
                        totalCount = Some (length rs),
                        validCount = Some (length validReceipts),
                        invalidCount = Some (length rs - length validReceipts),
                        filename = Some file \<rparr>))
      | _ \<Rightarrow>
          Inr \<lparr> valid = False, errors = [RootNotArray file], warnings = [], receipts = [],
                totalCount = None, validCount = None, invalidCount = None, filename = None \<rparr>)"

text \<open>
  The receipts of an array that pass \<open>validateReceipt\<close>, each checked with its index
  in the array, in the order of the array; and whether the check of some receipt of the
  array throws.
\<close>

definition passes :: "(jsval \<Rightarrow> jsval \<Rightarrow> jsval \<Rightarrow> jsval \<Rightarrow> bool) \<Rightarrow> nat \<times> jsval \<Rightarrow> bool" where
  "passes exceeds ir =
     (case validateReceipt exceeds (snd ir) (fst ir) of Inl e \<Rightarrow> False | Inr v \<Rightarrow> valid v)"

definition validReceiptsOf ::
  "(jsval \<Rightarrow> jsval \<Rightarrow> jsval \<Rightarrow> jsval \<Rightarrow> bool) \<Rightarrow> jsval list \<Rightarrow> jsval list" where
  "validReceiptsOf exceeds rs = map snd (filter (passes exceeds) (enumerate 0 rs))"

definition someReceiptThrows ::
  "(jsval \<Rightarrow> jsval \<Rightarrow> jsval \<Rightarrow> jsval \<Rightarrow> bool) \<Rightarrow> jsval list \<Rightarrow> bool" where
  "someReceiptThrows exceeds rs =
     list_ex (\<lambda>ir. validateReceipt exceeds (snd ir) (fst ir) = Inl TypeError) (enumerate 0 rs)"

section \<open>Filter engine\<close>

text \<open>
  The filter state. A date bound is \<open>null\<close> (\<open>None\<close>) or a \<open>Date\<close>, which may be
  invalid; the warehouse is \<open>null\<close>, \<open>'all'\<close>, \<open>'ONLINE'\<close> or a warehouse number; the
  other criteria are \<open>null\<close> or a string.
\<close>

record filterState =
  st_dateStart :: "jsdate option"
  st_dateEnd :: "jsdate option"
  st_warehouse :: jsval
  st_channel :: "string option"
  st_membershipNumber :: "string option"
  st_searchTerm :: "string option"
  st_transactionType :: "string option"

text \<open>\<open>receipt.channel || receipt.receiptType || 'warehouse'\<close>.\<close>

definition channelOf :: "receipt \<Rightarrow> jsval" where
  "channelOf r = jsOr (channel r) (jsOr (receiptType r) (JStr ''warehouse''))"

text \<open>The predicate of the date range stage.\<close>

definition inDateRange :: "filterState \<Rightarrow> receipt \<Rightarrow> bool" where
  "inDateRange st r =
     (case transactionDateTime r of
        None \<Rightarrow> False
      | Some date \<Rightarrow>
          (if st_dateStart st \<noteq> None \<and> dateLt date (the (st_dateStart st)) then False
           else if st_dateEnd st \<noteq> None \<and> dateGt date (the (st_dateEnd st)) then False
           else True))"

definition channelMatches :: "string \<Rightarrow> receipt \<Rightarrow> bool" where
  "channelMatches c r =
     (if c = ''warehouse'' then
        channelOf r = JStr ''warehouse'' \<or> channelOf r = JStr ''In-Warehouse''
        \<or> channelOf r = JStr ''Gas Station''
      else if c = ''online'' then channelOf r = JStr ''online''
      else True)"

definition isOnlineReceipt :: "receipt \<Rightarrow> bool" where
  "isOnlineReceipt r =
     (channel r = JStr ''online'' \<or> documentType r = JStr ''ONLINE''
      \<or> documentType r = JStr ''OnlineReceipts'' \<or> warehouseName r = ''Online'')"

definition membershipMatches :: "host \<Rightarrow> string \<Rightarrow> receipt \<Rightarrow> bool" where
  "membershipMatches h m r =
     (truthy (membershipNumber r) \<and> String_js h (membershipNumber r) = m)"

definition searchMatches :: "host \<Rightarrow> string \<Rightarrow> receipt \<Rightarrow> bool" where
  "searchMatches h term r =
     list_ex (\<lambda>it. includes_js (toLowerCase_h h (normalizedName it)) term
                    \<or> includes_js (itemNumber it) term) (itemArray r)"

text \<open>\<open>applyFilters\<close>: the six stages in their order, each run only when its criterion is set.\<close>

definition applyFilters :: "host \<Rightarrow> filterState \<Rightarrow> receipt list \<Rightarrow> receipt list" where
  "applyFilters h st rs =
     (let f1 = (if st_dateStart st \<noteq> None \<or> st_dateEnd st \<noteq> None
                then filter (inDateRange st) rs else rs);
          f2 = (case st_channel st of
                  None \<Rightarrow> f1
                | Some c \<Rightarrow> if c = [] then f1 else filter (channelMatches c) f1);
          f3 = (if st_warehouse st \<noteq> JNull \<and> st_warehouse st \<noteq> JStr ''all'' then
                  (if st_warehouse st = JStr ''ONLINE'' then filter isOnlineReceipt f2
                   else filter (\<lambda>r. toNumber h (st_warehouse st) = Some (warehouseNumber r)) f2)
                else f2);
          f4 = (case st_membershipNumber st of
                  None \<Rightarrow> f3
                | Some m \<Rightarrow> if m = [] then f3 else filter (membershipMatches h m) f3);
          f5 = (case st_transactionType st of
                  None \<Rightarrow> f4
                | Some t \<Rightarrow>
                    if t = [] \<or> t = ''all'' then f4
                    else filter (\<lambda>r. transactionType r = JStr t) f4);
          f6 = (case st_searchTerm st of
                  None \<Rightarrow> f5
                | Some term \<Rightarrow>
                    if term = [] then f5
                    else filter (searchMatches h (toLowerCase_h h term)) f5)
      in f6)"

section \<open>Aggregator\<close>

subsection \<open>calculateTotals\<close>

text \<open>
  The object \<open>calculateTotals\<close> returns. The early return for an empty array has
  \<open>totalItems\<close> and lacks \<open>uniqueReturnedItems\<close> and \<open>refundSpent\<close>; the other return
  has these two and lacks \<open>totalItems\<close>. A lacking property is \<open>None\<close>.
\<close>

record stats =
  totalSpent :: rat
  netSpent :: rat
  grossSpent :: rat
  totalItems :: "nat option"
  totalReceipts :: nat
  warehouseVisits :: nat
  onlineOrders :: nat
  totalTaxes :: rat
  totalSavings :: rat
  salesReceipts :: nat
  refundReceipts :: nat
  refundAmount :: rat
  refundItemCount :: rat
  uniqueReturnedItems :: "nat option"
  refundSpent :: "rat option"
  totalPurchaseCount :: rat
  uniqueItems :: nat
  netUniqueItems :: nat
  avgPricePerItem :: rat

text \<open>
  The state of the loop: the counters of the \<open>stats\<close> object while it is filled, the
  two sets (lists without repetition, in insertion order) and the map of net quantities.
\<close>

record tally =
  t_warehouseVisits :: nat
  t_onlineOrders :: nat
  t_totalTaxes :: rat
  t_totalSavings :: rat
  t_salesReceipts :: nat
  t_refundReceipts :: nat
  t_refundAmount :: rat
  t_refundItemCount :: rat
  t_grossSpent :: rat
  t_refundSpent :: rat
  t_totalPurchaseCount :: rat
  uniqueItemsSet :: "string list"
  uniqueReturnedItemsSet :: "string list"
  itemNetQuantities :: "(string \<times> rat) list"

definition setAdd :: "'a \<Rightarrow> 'a list \<Rightarrow> 'a list" where
  "setAdd x xs = (if x \<in> set xs then xs else xs @ [x])"

fun qtyGet :: "(string \<times> rat) list \<Rightarrow> string \<Rightarrow> rat option" where
  "qtyGet [] k = None"
| "qtyGet ((k', v) # m) k = (if k' = k then Some v else qtyGet m k)"

fun qtySet :: "(string \<times> rat) list \<Rightarrow> string \<Rightarrow> rat \<Rightarrow> (string \<times> rat) list" where
  "qtySet [] k v = [(k, v)]"
| "qtySet ((k', v') # m) k v = (if k' = k then (k', v) # m else (k', v') # qtySet m k v)"

text \<open>A receipt is a refund by its type or by a negative total.\<close>

definition isRefund :: "receipt \<Rightarrow> bool" where
  "isRefund r =
     (transactionType r = JStr ''Refund'' \<or> transactionType r = JStr ''Return''
      \<or> transactionType r = JStr ''Returned'' \<or> total_r r < 0)"

text \<open>
  \<open>item.quantity\<close>: a normalized item has no such property (its quantity is \<open>unit\<close>), so
  the read gives \<open>undefined\<close>.
\<close>

definition quantity :: "item \<Rightarrow> jsval" where
  "quantity it = JUndefined"

text \<open>The body of the loop over the items of a receipt.\<close>

definition itemStep :: "host \<Rightarrow> bool \<Rightarrow> tally \<Rightarrow> item \<Rightarrow> tally" where
  "itemStep h refund t it =
     (let qty = numberOr h (quantity it) 1;
          itemNum = itemNumber it;
          t1 = (if refund then
                  t\<lparr> t_refundItemCount := t_refundItemCount t + \<bar>qty\<bar>,
                     uniqueReturnedItemsSet :=
                       (if itemNum \<noteq> [] then setAdd itemNum (uniqueReturnedItemsSet t)
                        else uniqueReturnedItemsSet t) \<rparr>
                else t\<lparr> t_totalPurchaseCount := t_totalPurchaseCount t + qty \<rparr>)
      in if itemNum \<noteq> [] then
           let currentQty = (case qtyGet (itemNetQuantities t1) itemNum of
                               None \<Rightarrow> 0 | Some q \<Rightarrow> q)
           in t1\<lparr> uniqueItemsSet := setAdd itemNum (uniqueItemsSet t1),
                   itemNetQuantities :=
                     qtySet (itemNetQuantities t1) itemNum
                       (if refund then currentQty - \<bar>qty\<bar> else currentQty + qty) \<rparr>
         else t1)"

text \<open>The body of the loop over the receipts.\<close>

definition receiptStep :: "host \<Rightarrow> tally \<Rightarrow> receipt \<Rightarrow> tally" where
  "receiptStep h t r =
     (let refund = isRefund r;
          receiptTotal = total_r r;
          t1 = (if channelOf r = JStr ''online'' \<or> documentType r = JStr ''OnlineReceipts''
                then t\<lparr> t_onlineOrders := t_onlineOrders t + 1 \<rparr>
                else if channelOf r \<noteq> JStr ''gas_station''
                then t\<lparr> t_warehouseVisits := t_warehouseVisits t + 1 \<rparr>
                else t);
          t2 = (if refund then
                  t1\<lparr> t_refundReceipts := t_refundReceipts t1 + 1,
                      t_refundAmount := t_refundAmount t1 + \<bar>receiptTotal\<bar>,
                      t_refundSpent := t_refundSpent t1 - \<bar>receiptTotal\<bar> \<rparr>
                else
                  t1\<lparr> t_salesReceipts := t_salesReceipts t1 + 1,
                      t_grossSpent := t_grossSpent t1 + receiptTotal \<rparr>);
          t3 = (if refund then
                  t2\<lparr> t_totalTaxes := t_totalTaxes t2 - \<bar>taxes r\<bar>,
                      t_totalSavings := t_totalSavings t2 - \<bar>instantSavings r\<bar> \<rparr>
                else
                  t2\<lparr> t_totalTaxes := t_totalTaxes t2 + taxes r,
                      t_totalSavings := t_totalSavings t2 + instantSavings r \<rparr>)
      in foldl (itemStep h refund) t3 (itemArray r))"

definition tally0 :: tally where
  "tally0 =
     \<lparr> t_warehouseVisits = 0, t_onlineOrders = 0, t_totalTaxes = 0, t_totalSavings = 0,
       t_salesReceipts = 0, t_refundReceipts = 0, t_refundAmount = 0, t_refundItemCount = 0,
       t_grossSpent = 0, t_refundSpent = 0, t_totalPurchaseCount = 0,
       uniqueItemsSet = [], uniqueReturnedItemsSet = [], itemNetQuantities = [] \<rparr>"

definition calculateTotals :: "host \<Rightarrow> receipt list \<Rightarrow> stats" where
  "calculateTotals h rs =
     (if rs = [] then
        \<lparr> totalSpent = 0, netSpent = 0, grossSpent = 0, totalItems = Some 0, totalReceipts = 0,
          warehouseVisits = 0, onlineOrders = 0, totalTaxes = 0, totalSavings = 0,
          salesReceipts = 0, refundReceipts = 0, refundAmount = 0, refundItemCount = 0,
          uniqueReturnedItems = None, refundSpent = None, totalPurchaseCount = 0,
          uniqueItems = 0, netUniqueItems = 0, avgPricePerItem = 0 \<rparr>
      else
        let t = foldl (receiptStep h) tally0 rs;
            net = t_grossSpent t + t_refundSpent t;
            avg = (if t_totalPurchaseCount t > 0 then t_grossSpent t / t_totalPurchaseCount t
                   else 0)
        in \<lparr> totalSpent = round2 net,
             netSpent = round2 net,
             grossSpent = round2 (t_grossSpent t),
             totalItems = None,
             totalReceipts = length rs,
             warehouseVisits = t_warehouseVisits t,
             onlineOrders = t_onlineOrders t,
             totalTaxes = round2 (t_totalTaxes t),
             totalSavings = round2 (t_totalSavings t),
             salesReceipts = t_salesReceipts t,
             refundReceipts = t_refundReceipts t,
             refundAmount = round2 (t_refundAmount t),
             refundItemCount = t_refundItemCount t,
             uniqueReturnedItems = Some (length (uniqueReturnedItemsSet t)),
             refundSpent = Some (t_refundSpent t),
             totalPurchaseCount = t_totalPurchaseCount t,
             uniqueItems = length (uniqueItemsSet t),
             netUniqueItems = length (filter (\<lambda>kv. snd kv > 0) (itemNetQuantities t)),
             avgPricePerItem = round2 avg \<rparr>)"

subsection \<open>calculateExecutiveRewards\<close>

record rewardOptions =
  cycleStartMonth :: jsval
  cycleStartDay :: jsval
  additionalExcludedDepartments :: jsval

record yearEntry =
  subtotal :: rat
  reward :: rat

record rewards =
  byYear :: "(int \<times> yearEntry) list"
  totalReward :: rat
  cycleStart :: "rat \<times> rat"

text \<open>
  \<open>getCycleYear\<close>, with the cycle start the enclosing function computed; \<open>None\<close> is
  \<open>null\<close>.
\<close>

definition getCycleYear :: "rat \<Rightarrow> rat \<Rightarrow> jsdate option \<Rightarrow> int option" where
  "getCycleYear startMonth startDay date =
     (case date of
        None \<Rightarrow> None
      | Some InvalidDate \<Rightarrow> None
      | Some (TimeValue t) \<Rightarrow>
          (let startThisYear = newDate (getFullYear t) (startMonth - 1) startDay
           in Some (if dateGe (TimeValue t) startThisYear then getFullYear t
                    else getFullYear t - 1)))"

text \<open>The departments that do not qualify: 75, 93 and the additional ones of the options.\<close>

definition excludedDepartments :: "rewardOptions \<Rightarrow> jsval list" where
  "excludedDepartments opts =
     [JNum 75, JNum 93] @
     (case additionalExcludedDepartments opts of JArr ds \<Rightarrow> ds | _ \<Rightarrow> [])"

text \<open>
  \<open>v.toLowerCase().includes('travel')\<close>; a value that is not a string has no
  \<open>toLowerCase\<close>, and the call throws.
\<close>

fun lowerIncludesTravel :: "host \<Rightarrow> jsval \<Rightarrow> error + bool" where
  "lowerIncludesTravel h (JStr s) = Inr (includes_js (toLowerCase_h h s) ''travel'')"
| "lowerIncludesTravel h v = Inl TypeError"

definition isGas :: "receipt \<Rightarrow> bool" where
  "isGas r =
     (channelOf r = JStr ''gas_station'' \<or> channelOf r = JStr ''Gas Station''
      \<or> jsOr (documentType r) (JStr []) = JStr ''FuelReceipts''
      \<or> receiptType r = JStr ''Gas Station'')"

text \<open>\<open>isTravel\<close>: the three disjuncts in order, the later ones only when needed.\<close>

definition isTravel :: "host \<Rightarrow> receipt \<Rightarrow> error + bool" where
  "isTravel h r =
     (case lowerIncludesTravel h (jsOr (documentType r) (JStr [])) of
        Inl e \<Rightarrow> Inl e
      | Inr True \<Rightarrow> Inr True
      | Inr False \<Rightarrow>
          (case (if truthy (receiptType r) then lowerIncludesTravel h (receiptType r)
                 else Inr False) of
             Inl e \<Rightarrow> Inl e
           | Inr True \<Rightarrow> Inr True
           | Inr False \<Rightarrow>
               (if truthy (channelOf r) then lowerIncludesTravel h (channelOf r)
                else Inr False)))"

text \<open>The qualifying subtotal of one receipt: the loop over its items.\<close>

definition qualifyingStep :: "host \<Rightarrow> jsval list \<Rightarrow> rat \<Rightarrow> item \<Rightarrow> rat" where
  "qualifyingStep h excluded qualifyingSubtotal it =
     (if isDiscount it then qualifyingSubtotal
      else
        let dept = jsOr (itemDepartmentNumber it) (JNum 0);
            amt = numberOr h (JNum (amount it)) 0
        in if list_ex (\<lambda>d. sameValueZero d dept) excluded \<or> amt < 0 then qualifyingSubtotal
           else qualifyingSubtotal + amt)"

definition qualifyingOf :: "host \<Rightarrow> jsval list \<Rightarrow> receipt \<Rightarrow> rat" where
  "qualifyingOf h excluded r = foldl (qualifyingStep h excluded) 0 (itemArray r)"

text \<open>
  The object \<open>byYear\<close> as the list of its entries, in the order the years were first
  seen (JavaScript enumerates integer-like keys in ascending order; with exact numbers the
  sum over the entries is the same). Adding to the subtotal of a year creates the entry
  when the year is new.
\<close>

fun addSubtotal :: "(int \<times> yearEntry) list \<Rightarrow> int \<Rightarrow> rat \<Rightarrow> (int \<times> yearEntry) list" where
  "addSubtotal [] y q = [(y, \<lparr> subtotal = 0 + q, reward = 0 \<rparr>)]"
| "addSubtotal ((y', e) # m) y q =
     (if y' = y then (y', e\<lparr> subtotal := subtotal e + q \<rparr>) # m
      else (y', e) # addSubtotal m y q)"

text \<open>The body of the loop over the receipts; a throw ends the whole call.\<close>

definition rewardStep ::
  "host \<Rightarrow> rat \<Rightarrow> rat \<Rightarrow> jsval list \<Rightarrow> (int \<times> yearEntry) list \<Rightarrow> receipt \<Rightarrow>
   error + (int \<times> yearEntry) list" where
  "rewardStep h startMonth startDay excluded m r =
     (case isTravel h r of
        Inl e \<Rightarrow> Inl e
      | Inr travel \<Rightarrow>
          (if isGas r \<or> travel then Inr m
           else if total_r r < 0 then Inr m
           else
             (case getCycleYear startMonth startDay (transactionDateTime r) of
                None \<Rightarrow> Inr m
              | Some cycleYear \<Rightarrow> Inr (addSubtotal m cycleYear (qualifyingOf h excluded r)))))"

fun rewardLoop ::
  "host \<Rightarrow> rat \<Rightarrow> rat \<Rightarrow> jsval list \<Rightarrow> (int \<times> yearEntry) list \<Rightarrow> receipt list \<Rightarrow>
   error + (int \<times> yearEntry) list" where
  "rewardLoop h startMonth startDay excluded m [] = Inr m"
| "rewardLoop h startMonth startDay excluded m (r # rs) =
     (case rewardStep h startMonth startDay excluded m r of
        Inl e \<Rightarrow> Inl e
      | Inr m' \<Rightarrow> rewardLoop h startMonth startDay excluded m' rs)"

text \<open>The reward of a cycle year: 2% of its subtotal, capped at 1250.\<close>

definition setReward :: "yearEntry \<Rightarrow> yearEntry" where
  "setReward e = e\<lparr> reward := min (subtotal e * (2 / 100)) 1250 \<rparr>"

definition calculateExecutiveRewards ::
  "host \<Rightarrow> receipt list \<Rightarrow> rewardOptions \<Rightarrow> error + rewards" where
  "calculateExecutiveRewards h rs opts =
     (let startMonth = numberOr h (cycleStartMonth opts) 1;
          startDay = numberOr h (cycleStartDay opts) 1
      in case rewardLoop h startMonth startDay (excludedDepartments opts) [] rs of
           Inl e \<Rightarrow> Inl e
         | Inr m \<Rightarrow>
             (let m' = map (\<lambda>(y, e). (y, setReward e)) m
              in Inr \<lparr> byYear = m',
                       totalReward = foldl (\<lambda>total (y, e). total + reward e) 0 m',
                       cycleStart = (startMonth, startDay) \<rparr>))"




section \<open>Example data\<close>

text \<open>
  A host for evaluating closed examples. Its \<open>String(v)\<close> is right for \<open>null\<close>,
  \<open>undefined\<close>, booleans and the natural numbers, its \<open>toLowerCase\<close> for the letters
  A to Z, and its date parser for a local date-time of the form
  \<open>YYYY-MM-DDTHH:MM:SS\<close>. Its other answers are stand-ins (NaN for every
  string-to-number conversion, the empty string and an invalid date elsewhere, \<open>btoa\<close>
  answering its argument); no example below reaches them in a field that a stated fact
  is about.
\<close>

function natToStr :: "nat \<Rightarrow> string" where
  "natToStr n =
     (if n < 10 then [char_of (48 + n)]
      else natToStr (n div 10) @ [char_of (48 + n mod 10)])"
  by pat_completeness auto
termination
  by (relation "measure (\<lambda>n. n)") auto

definition digitsVal :: "string \<Rightarrow> int option" where
  "digitsVal s =
     (if s \<noteq> [] \<and> list_all isDigit s
      then Some (foldl (\<lambda>n c. 10 * n + (int (of_char c) - 48)) 0 s)
      else None)"

definition isoLocal :: "string \<Rightarrow> int option" where
  "isoLocal s =
     (if length s = 19 \<and> s ! 4 = CHR ''-'' \<and> s ! 7 = CHR ''-'' \<and> s ! 10 = CHR ''T''
         \<and> s ! 13 = CHR '':'' \<and> s ! 16 = CHR '':'' then
        (case (digitsVal (take 4 s), digitsVal (take 2 (drop 5 s)), digitsVal (take 2 (drop 8 s)),
               digitsVal (take 2 (drop 11 s)), digitsVal (take 2 (drop 14 s)),
               digitsVal (take 2 (drop 17 s))) of
           (Some y, Some mo, Some d, Some hh, Some mi, Some ss) \<Rightarrow>
             (if 1 \<le> mo \<and> mo \<le> 12 \<and> 1 \<le> d \<and> d \<le> DaysInMonth y mo
                 \<and> hh \<le> 23 \<and> mi \<le> 59 \<and> ss \<le> 59
              then Some (MakeDay y (mo - 1) d * msPerDay + ((hh * 60 + mi) * 60 + ss) * 1000)
              else None)
         | _ \<Rightarrow> None)
      else None)"

definition asciiLower :: "string \<Rightarrow> string" where
  "asciiLower s =
     map (\<lambda>c. if 65 \<le> (of_char c :: nat) \<and> (of_char c :: nat) \<le> 90
              then char_of ((of_char c :: nat) + 32) else c) s"

definition exampleToStr :: "jsval \<Rightarrow> string" where
  "exampleToStr v =
     (case v of
        JNull \<Rightarrow> ''null''
      | JUndefined \<Rightarrow> ''undefined''
      | JBool b \<Rightarrow> (if b then ''true'' else ''false'')
      | JNum r \<Rightarrow> (if 0 \<le> r \<and> of_int \<lfloor>r\<rfloor> = r then natToStr (nat \<lfloor>r\<rfloor>) else [])
      | _ \<Rightarrow> [])"

definition exampleHost :: host where
  "exampleHost =
     \<lparr> strToNumber = (\<lambda>s. None), objToNumber = (\<lambda>v. None), parseFloat_h = (\<lambda>s. None),
       toStr = exampleToStr, btoa_h = (\<lambda>s. Some s),
       dateParse = (\<lambda>v. case v of JStr s \<Rightarrow> isoLocal s | _ \<Rightarrow> None),
       toLowerCase_h = asciiLower \<rparr>"

text \<open>
  The outcome of the consistency check in the examples: the exact comparison when the four
  operands are numbers, and no mismatch otherwise. Then a raw receipt that has every
  required field and whose \<open>transactionType\<close> is an object with an own \<open>toString\<close>.
\<close>

definition exampleExceeds :: "jsval \<Rightarrow> jsval \<Rightarrow> jsval \<Rightarrow> jsval \<Rightarrow> bool" where
  "exampleExceeds sub tax disc tot =
     (case (sub, tax, disc, tot) of
        (JNum a, JNum b, JNum c, JNum d) \<Rightarrow> \<bar>a + b - c - d\<bar> > 2 / 100
      | _ \<Rightarrow> False)"

definition exOddType :: jsval where
  "exOddType =
     JObj [(''transactionType'', JObj [(''toString'', JNum 0)]),
           (''transactionDate'', JStr ''2024-03-16''),
           (''warehouseNumber'', JNum 847),
           (''total'', JNum 5),
           (''itemArray'', JArr [])]"

text \<open>
  The raw receipt of the end-to-end scenario: a warehouse receipt of 15 March 2024 with
  total 21.37 and taxes 1.38, one item (number 111, amount 19.99, unit 1) and one
  discount line that refers to \<open>/111\<close> (amount -2.00, unit 0).
\<close>

definition scenarioItem :: jsval where
  "scenarioItem =
     JObj [(''itemNumber'', JStr ''111''), (''amount'', JNum (1999 / 100)), (''unit'', JNum 1),
           (''itemDescription01'', JStr ''KS TOWELS'')]"

definition scenarioDiscount :: jsval where
  "scenarioDiscount =
     JObj [(''itemNumber'', JStr ''356994''), (''amount'', JNum (- 2)), (''unit'', JNum 0),
           (''itemDescription01'', JStr ''/111'')]"

definition scenarioReceipt :: jsval where
  "scenarioReceipt =
     JObj [(''transactionType'', JStr ''Sales''),
           (''transactionDate'', JStr ''2024-03-15''),
           (''transactionDateTime'', JStr ''2024-03-15T14:30:00''),
           (''warehouseNumber'', JNum 847),
           (''warehouseName'', JStr ''SEATTLE''),
           (''transactionNumber'', JNum 1001),
           (''receiptType'', JStr ''In-Warehouse''),
           (''total'', JNum (2137 / 100)),
           (''subTotal'', JNum (1999 / 100)),
           (''taxes'', JNum (138 / 100)),
           (''itemArray'', JArr [scenarioItem, scenarioDiscount])]"

text \<open>
  What the scenario receipt normalizes to, for any host, clock reading and file name.
\<close>

definition scenarioItems :: "item list" where
  "scenarioItems =
     [\<lparr> itemNumber = ''111'', amount = 1999 / 100, unit = 1,
        itemDescription01 = ''KS TOWELS'', itemDescription02 = [],
        itemActualName = [], normalizedName = ''KS TOWELS'',
        unitPrice = Some (1999 / 100), isDiscount = False,
        taxFlag = JNull, itemDepartmentNumber = JNull,
        itemUnitPriceAmount = JNull, fuelUnitQuantity = JNull,
        fuelGradeCode = JNull, fuelGradeDescription = JNull,
        fuelUomCode = JNull, fullItemImage = JNull,
        catEntryId = JNull, discountAppliesTo = JUndefined \<rparr>,
      \<lparr> itemNumber = ''356994'', amount = - 2, unit = 0,
        itemDescription01 = ''/111'', itemDescription02 = [],
        itemActualName = [], normalizedName = ''Discount on Item 111'',
        unitPrice = Some (- 2), isDiscount = True, taxFlag = JNull,
        itemDepartmentNumber = JNull, itemUnitPriceAmount = JNull,
        fuelUnitQuantity = JNull, fuelGradeCode = JNull,
        fuelGradeDescription = JNull, fuelUomCode = JNull,
        fullItemImage = JNull, catEntryId = JNull,
        discountAppliesTo = JStr ''111'' \<rparr>]"

definition scenarioNormalized :: "host \<Rightarrow> int \<Rightarrow> string \<Rightarrow> receipt" where
  "scenarioNormalized h now fname =
     \<lparr> id_r = String_js h (JNum 847) @ ''-2024-03-15-'' @ String_js h (JNum 1001),
       processedAt = TimeValue now,
       sourceFile = fname,
       transactionDate = JStr ''2024-03-15'',
       transactionDateTime = parseDate h (JStr ''2024-03-15T14:30:00''),
       transactionType = JStr ''Sales'',
       warehouseNumber = 847,
       warehouseName = ''SEATTLE'',
       warehouseCity = [],
       warehouseState = JNull,
       warehouseCountry = JNull,
       warehouseFullAddress = [],
       total_r = 2137 / 100, subTotal = 1999 / 100, taxes = 138 / 100, instantSavings = 2,
       itemArray = scenarioItems,
       tenderArray = JArr [], couponArray = JArr [],
       membershipNumber = JNull,
       receiptType = JStr ''In-Warehouse'',
       documentType = JNull,
       channel = JNull,
       transactionNumber = JNum 1001,
       totalItemCount = JNum 2,
       subTaxes = JNull,
       original = scenarioReceipt \<rparr>"

text \<open>A returned item: negative amount, negative unit, no reference to another item.\<close>

definition exReturnItem :: jsval where
  "exReturnItem =
     JObj [(''itemNumber'', JStr ''222''), (''amount'', JNum (- 5)), (''unit'', JNum (- 1)),
           (''itemDescription01'', JStr ''KS  WATER '')]"

text \<open>A purchased item and a discount line that refers to it.\<close>

definition exItem :: item where
  "exItem =
     \<lparr> itemNumber = ''111'', amount = 1999 / 100, unit = 1,
       itemDescription01 = ''KS TOWELS'', itemDescription02 = [],
       itemActualName = [], normalizedName = ''KS TOWELS'',
       unitPrice = Some (1999 / 100), isDiscount = False, taxFlag = JNull,
       itemDepartmentNumber = JNum 14, itemUnitPriceAmount = JNull,
       fuelUnitQuantity = JNull, fuelGradeCode = JNull,
       fuelGradeDescription = JNull, fuelUomCode = JNull,
       fullItemImage = JNull, catEntryId = JNull,
       discountAppliesTo = JUndefined \<rparr>"

definition exDiscountItem :: item where
  "exDiscountItem =
     exItem\<lparr> itemNumber := ''356994'', amount := - 2, unit := 0,
              itemDescription01 := ''/111'', normalizedName := ''Discount on Item 111'',
              unitPrice := Some (- 2), isDiscount := True,
              discountAppliesTo := JStr ''111'' \<rparr>"

text \<open>
  A warehouse receipt of 15 March 2024 (local midnight is day 19797 after the epoch) with
  no items, and copies of it with one item, with two, and with one other item; the
  copies have its transaction barcode.
\<close>

definition exReceipt :: receipt where
  "exReceipt =
     \<lparr> id_r = ''847-2024-03-15-1001'',
       processedAt = TimeValue 1710500000000,
       sourceFile = ''receipts.json'',
       transactionDate = JStr ''2024-03-15'',
       transactionDateTime = Some (TimeValue (19797 * 86400000 + 52200000)),
       transactionType = JStr ''Sales'',
       warehouseNumber = 847,
       warehouseName = ''SEATTLE'',
       warehouseCity = ''SEATTLE'',
       warehouseState = JStr ''WA'',
       warehouseCountry = JStr ''US'',
       warehouseFullAddress = [],
       total_r = 0, subTotal = 0, taxes = 0, instantSavings = 0,
       itemArray = [],
       tenderArray = JArr [], couponArray = JArr [],
       membershipNumber = JStr ''111222333444'',
       receiptType = JStr ''In-Warehouse'',
       documentType = JStr ''WarehouseReceiptDetail'',
       channel = JNull,
       transactionNumber = JNum 1001,
       totalItemCount = JNum 0,
       subTaxes = JNull,
       original = JObj [(''transactionBarcode'', JStr ''21084700301012403151430'')] \<rparr>"

definition exShort :: receipt where
  "exShort = exReceipt\<lparr> itemArray := [exItem] \<rparr>"

definition exLong :: receipt where
  "exLong = exReceipt\<lparr> itemArray := [exItem, exDiscountItem], sourceFile := ''receipts2.json'' \<rparr>"

definition exTie :: receipt where
  "exTie = exReceipt\<lparr> itemArray := [exDiscountItem], sourceFile := ''receipts3.json'' \<rparr>"

text \<open>A receipt without a parsable date, and a filter state whose range starts on 1 January 2024.\<close>

definition exNoDate :: receipt where
  "exNoDate = exReceipt\<lparr> transactionDateTime := None, transactionDate := JStr ''n/a'' \<rparr>"

definition exFilter :: filterState where
  "exFilter =
     \<lparr> st_dateStart = Some (TimeValue (19723 * 86400000)), st_dateEnd = None,
       st_warehouse = JNull, st_channel = None, st_membershipNumber = None,
       st_searchTerm = None, st_transactionType = None \<rparr>"

text \<open>A reward cycle that starts on 15 March, and a receipt large enough to reach the cap.\<close>

definition exOptions :: rewardOptions where
  "exOptions =
     \<lparr> cycleStartMonth = JNum 3, cycleStartDay = JNum 15,
       additionalExcludedDepartments = JUndefined \<rparr>"






text \<open>A receipt dated 15 March of the year 50, at noon.\<close>

definition exOld :: receipt where
  "exOld =
     exLong\<lparr> transactionDate := JStr ''0050-03-15'',
              transactionDateTime := Some (TimeValue (- 60582945600000)) \<rparr>"

section \<open>Calendar facts\<close>

lemma div_step:
  "0 < k \<Longrightarrow> ((a::int) + 1) div k = a div k + (if (a + 1) mod k = 0 then 1 else 0)"
proof -
  assume k: "0 < k"
  define q where "q = a div k"
  define r where "r = a mod k"
  have r: "0 \<le> r" "r < k" using k by (simp_all add: r_def)
  have a: "a = q * k + r" by (simp add: q_def r_def)
  show ?thesis
  proof (cases "r = k - 1")
    case True
    have "a + 1 = (q + 1) * k" using a True by (simp add: algebra_simps)
    then have "(a + 1) div k = q + 1 \<and> (a + 1) mod k = 0" using k by simp
    then show ?thesis by (simp add: q_def)
  next
    case False
    then have lt: "r + 1 < k" using r by linarith
    have e: "a + 1 = (r + 1) + q * k" using a by simp
    have "((r + 1) + q * k) div k = q" using lt r k by (simp add: div_pos_pos_trivial)
    moreover have "((r + 1) + q * k) mod k = r + 1" using lt r k by (simp add: mod_pos_pos_trivial)
    ultimately have "(a + 1) div k = q \<and> (a + 1) mod k = r + 1" by (simp only: e)
    then show ?thesis using r by (simp add: q_def)
  qed
qed

lemma mod4_shift: "(y - 1968) mod 4 = (y::int) mod 4"
proof -
  have "(y - 1968) mod 4 = (y + (-492) * 4) mod 4" by simp
  also have "\<dots> = y mod 4" by (rule mod_mult_self1)
  finally show ?thesis .
qed

lemma mod100_shift: "(y - 1900) mod 100 = (y::int) mod 100"
proof -
  have "(y - 1900) mod 100 = (y + (-19) * 100) mod 100" by simp
  also have "\<dots> = y mod 100" by (rule mod_mult_self1)
  finally show ?thesis .
qed

lemma mod400_shift: "(y - 1600) mod 400 = (y::int) mod 400"
proof -
  have "(y - 1600) mod 400 = (y + (-4) * 400) mod 400" by simp
  also have "\<dots> = y mod 400" by (rule mod_mult_self1)
  finally show ?thesis .
qed

lemma mod100_mod4: "(y::int) mod 100 = 0 \<Longrightarrow> y mod 4 = 0"
proof -
  assume "y mod 100 = 0"
  then have "100 dvd y" by (simp add: dvd_eq_mod_eq_0)
  moreover have "(4::int) dvd 100" by simp
  ultimately have "4 dvd y" by (rule dvd_trans[rotated])
  then show ?thesis by (simp add: dvd_eq_mod_eq_0)
qed

lemma mod400_mod100: "(y::int) mod 400 = 0 \<Longrightarrow> y mod 100 = 0"
proof -
  assume "y mod 400 = 0"
  then have "400 dvd y" by (simp add: dvd_eq_mod_eq_0)
  moreover have "(100::int) dvd 400" by simp
  ultimately have "100 dvd y" by (rule dvd_trans[rotated])
  then show ?thesis by (simp add: dvd_eq_mod_eq_0)
qed

text \<open>A year is as long as \<open>DaysInYear\<close> says.\<close>

lemma DayFromYear_Suc: "DayFromYear (y + 1) = DayFromYear y + DaysInYear y"
proof -
  have a: "(y + 1 - 1969) div 4 = (y - 1969) div 4 + (if y mod 4 = 0 then 1 else 0)"
    using div_step[of 4 "y - 1969"] mod4_shift[of y] by (simp add: algebra_simps)
  have b: "(y + 1 - 1901) div 100 = (y - 1901) div 100 + (if y mod 100 = 0 then 1 else 0)"
    using div_step[of 100 "y - 1901"] mod100_shift[of y] by (simp add: algebra_simps)
  have c: "(y + 1 - 1601) div 400 = (y - 1601) div 400 + (if y mod 400 = 0 then 1 else 0)"
    using div_step[of 400 "y - 1601"] mod400_shift[of y] by (simp add: algebra_simps)
  show ?thesis
    unfolding DayFromYear_def DaysInYear_def a b c
    using mod100_mod4[of y] mod400_mod100[of y] by auto
qed

lemma DaysInYear_bounds: "365 \<le> DaysInYear y" "DaysInYear y \<le> 366"
  by (simp_all add: DaysInYear_def)

lemma DayFromYear_less: "DayFromYear y < DayFromYear (y + 1)"
  using DayFromYear_Suc[of y] DaysInYear_bounds(1)[of y] by linarith

lemma DayFromYear_grow: "0 \<le> n \<Longrightarrow> DayFromYear y + 365 * n \<le> DayFromYear (y + n)"
proof (induction n rule: int_ge_induct)
  case base
  then show ?case by simp
next
  case (step i)
  have "DayFromYear (y + (i + 1)) = DayFromYear (y + i) + DaysInYear (y + i)"
    using DayFromYear_Suc[of "y + i"] by (simp add: add.assoc)
  moreover have "365 * (i + 1) = 365 * i + (365::int)" by simp
  ultimately show ?case using step DaysInYear_bounds(1)[of "y + i"] by (simp only:)
qed

lemma DayFromYear_grow_le: "0 \<le> n \<Longrightarrow> DayFromYear (y + n) \<le> DayFromYear y + 366 * n"
proof (induction n rule: int_ge_induct)
  case base
  then show ?case by simp
next
  case (step i)
  have "DayFromYear (y + (i + 1)) = DayFromYear (y + i) + DaysInYear (y + i)"
    using DayFromYear_Suc[of "y + i"] by (simp add: add.assoc)
  moreover have "366 * (i + 1) = 366 * i + (366::int)" by simp
  ultimately show ?case using step DaysInYear_bounds(2)[of "y + i"] by (simp only:)
qed

lemma DayFromYear_mono: "y \<le> y' \<Longrightarrow> DayFromYear y \<le> DayFromYear y'"
  using DayFromYear_grow[of "y' - y" y] by simp

termination yearUp
proof (relation "measure (\<lambda>(d, y). nat (d - DayFromYear y))")
  show "wf (measure (\<lambda>(d, y). nat (d - DayFromYear y)))" by simp
next
  fix d y :: int
  assume "DayFromYear (y + 1) \<le> d"
  then show "((d, y + 1), (d, y)) \<in> measure (\<lambda>(d, y). nat (d - DayFromYear y))"
    using DayFromYear_less[of y] by simp
qed

declare yearUp.simps [simp del]

declare natToStr.simps [simp del]

lemma yearUp_unique:
  "DayFromYear y \<le> d \<Longrightarrow> DayFromYear Y \<le> d \<Longrightarrow> d < DayFromYear (Y + 1) \<Longrightarrow> yearUp d y = Y"
proof (induction d y rule: yearUp.induct)
  case (1 d y)
  have yle: "y \<le> Y"
  proof (rule ccontr)
    assume "\<not> y \<le> Y"
    then have "Y + 1 \<le> y" by simp
    then have "DayFromYear (Y + 1) \<le> DayFromYear y" by (rule DayFromYear_mono)
    with 1 show False by linarith
  qed
  show ?case
  proof (cases "DayFromYear (y + 1) \<le> d")
    case True
    then have "yearUp d y = yearUp d (y + 1)" by (subst yearUp.simps) simp
    then show ?thesis using 1 True by simp
  next
    case False
    then have "yearUp d y = y" by (subst yearUp.simps) simp
    moreover have "Y \<le> y"
    proof (rule ccontr)
      assume "\<not> Y \<le> y"
      then have "y + 1 \<le> Y" by simp
      then have "DayFromYear (y + 1) \<le> DayFromYear Y" by (rule DayFromYear_mono)
      with 1 False show False by linarith
    qed
    ultimately show ?thesis using yle by simp
  qed
qed

lemma DayFromYear_1970: "DayFromYear 1970 = 0"
  by (simp add: DayFromYear_def)

lemma estimate_ok:
  "DayFromYear (if 0 \<le> d then 1970 + d div 366 else 1970 + d div 365) \<le> d"
proof (cases "0 \<le> d")
  case True
  have "DayFromYear (1970 + d div 366) \<le> DayFromYear 1970 + 366 * (d div 366)"
    using True by (intro DayFromYear_grow_le) (simp add: pos_imp_zdiv_nonneg_iff)
  moreover have "366 * (d div 366) \<le> d"
  proof -
    have "366 * (d div 366) + d mod 366 = d" by (rule mult_div_mod_eq)
    moreover have "0 \<le> d mod 366" by simp
    ultimately show ?thesis by linarith
  qed
  ultimately show ?thesis using True by (simp add: DayFromYear_1970)
next
  case False
  define n where "n = - (d div 365)"
  have n: "0 \<le> n" using False by (simp add: n_def div_neg_pos_less0 less_imp_le)
  have "DayFromYear (1970 - n) + 365 * n \<le> DayFromYear 1970"
    using DayFromYear_grow[OF n, of "1970 - n"] by simp
  moreover have "365 * (d div 365) \<le> d"
  proof -
    have "365 * (d div 365) + d mod 365 = d" by (rule mult_div_mod_eq)
    moreover have "0 \<le> d mod 365" by simp
    ultimately show ?thesis by linarith
  qed
  ultimately show ?thesis using False by (simp add: DayFromYear_1970 n_def)
qed

text \<open>\<open>YearFromDay\<close> finds the year whose days include \<open>d\<close>.\<close>

lemma YearFromDay_unique:
  "DayFromYear Y \<le> d \<Longrightarrow> d < DayFromYear (Y + 1) \<Longrightarrow> YearFromDay d = Y"
  unfolding YearFromDay_def by (rule yearUp_unique[OF estimate_ok])

section \<open>Normalizer: discounts and returns\<close>

lemma exReturnItem_normalized:
  "normalizeItem exampleHost exReturnItem =
     Inr \<lparr> itemNumber = ''222'', amount = - 5, unit = - 1,
           itemDescription01 = ''KS WATER'', itemDescription02 = [],
           itemActualName = [], normalizedName = ''KS WATER'',
           unitPrice = Some 5, isDiscount = False, taxFlag = JNull,
           itemDepartmentNumber = JNull, itemUnitPriceAmount = JNull,
           fuelUnitQuantity = JNull, fuelGradeCode = JNull,
           fuelGradeDescription = JNull, fuelUomCode = JNull,
           fullItemImage = JNull, catEntryId = JNull,
           discountAppliesTo = JUndefined \<rparr>"
  by code_simp

text \<open>
  C3. For every raw item that \<open>normalizeItem\<close> accepts, \<open>isDiscount\<close> is the value of the
  discount line of the source at the item's amount, unit and reference flag, and an item
  that satisfies the return condition (negative amount, negative unit, no item
  reference) is not a discount: the two classifications are never both true.
\<close>

theorem discount_return_exclusive:
  assumes "normalizeItem h raw = Inr it"
  shows "\<exists>hasRef.
           hasItemReference (itemActualName it) (itemDescription01 it)
             (getProp raw ''frenchItemDescription1'') = Inr hasRef
           \<and> isDiscount it = isDiscountOf (amount it) (unit it) hasRef
           \<and> \<not> (isDiscount it \<and> isReturn (amount it) (unit it) hasRef)"
proof -
  from assms obtain hasRef where
    ref: "hasItemReference (itemActualName it) (itemDescription01 it)
            (getProp raw ''frenchItemDescription1'') = Inr hasRef"
    and disc: "isDiscount it = isDiscountOf (amount it) (unit it) hasRef"
    unfolding normalizeItem_def
    by (auto simp: Let_def split: if_splits sum.splits)
  have "\<not> (isDiscountOf (amount it) (unit it) hasRef \<and> isReturn (amount it) (unit it) hasRef)"
    by (auto simp: isDiscountOf_def isReturn_def)
  with ref disc show ?thesis by auto
qed

theorem discount_return_exclusive_witness:
  "normalizeItem exampleHost exReturnItem \<noteq> Inl TypeError
   \<and> isReturn (- 5) (- 1) False
   \<and> (case normalizeItem exampleHost exReturnItem of
        Inl e \<Rightarrow> False
      | Inr it \<Rightarrow> amount it = - 5 \<and> unit it = - 1 \<and> \<not> isDiscount it)"
  using discount_return_exclusive[OF exReturnItem_normalized]
  by (simp add: exReturnItem_normalized isReturn_def)

section \<open>Deduplicator: which duplicate is kept\<close>

lemma sameValueZero_sym: "sameValueZero a b \<Longrightarrow> sameValueZero b a"
  by (auto simp: sameValueZero_def)

lemma sameValueZero_eq: "sameValueZero a b \<Longrightarrow> a = b"
  by (simp add: sameValueZero_def)

lemma foldl_concat: "foldl (\<lambda>m xs. foldl f m xs) m xss = foldl f m (concat xss)"
  by (induction xss arbitrary: m) simp_all

lemma mergeReceipts_concat: "mergeReceipts rss = map snd (foldl mergeStep [] (concat rss))"
  by (simp add: mergeReceipts_def foldl_concat)

lemma mapGet_mapSet:
  "mapGet (mapSet m k v) k' = (if sameValueZero k k' then Some v else mapGet m k')"
  by (induction m) (auto simp: sameValueZero_def)

lemma mapGet_mergeStep:
  "mapGet (mergeStep m r) k =
     (if sameValueZero (dedupKey r) k then
        (case mapGet m k of
           None \<Rightarrow> Some r
         | Some e \<Rightarrow> if length (itemArray r) > length (itemArray e) then Some r else Some e)
      else mapGet m k)"
proof (cases "sameValueZero (dedupKey r) k")
  case True
  then have k: "dedupKey r = k" by (rule sameValueZero_eq)
  show ?thesis using True unfolding mergeStep_def Let_def k
    by (simp add: mapGet_mapSet split: option.splits)
next
  case False
  then show ?thesis unfolding mergeStep_def Let_def
    by (simp add: mapGet_mapSet split: option.splits)
qed

lemma wfMap_mapSet:
  "wfMap m \<Longrightarrow> k = dedupKey v \<Longrightarrow> wfMap (mapSet m k v)"
proof (induction m)
  case Nil
  then show ?case by simp
next
  case (Cons a m)
  obtain k' v' where a: "a = (k', v')" by (cases a)
  show ?case
  proof (cases "sameValueZero k' k")
    case True
    then show ?thesis using Cons a by (auto simp: sameValueZero_def)
  next
    case False
    have "\<forall>(k'', v'') \<in> set (mapSet m k v). \<not> sameValueZero k' k''"
      using Cons.prems(1) a False 
      by (induction m) (auto simp: sameValueZero_def split: if_splits)
    then show ?thesis using Cons a False by auto
  qed
qed

lemma wfMap_mergeStep: "wfMap m \<Longrightarrow> wfMap (mergeStep m r)"
  by (auto simp: mergeStep_def Let_def wfMap_mapSet split: option.splits)

lemma wfMap_foldl: "wfMap m \<Longrightarrow> wfMap (foldl mergeStep m xs)"
  by (induction xs arbitrary: m) (simp_all add: wfMap_mergeStep)

lemma wfMap_filter:
  "wfMap m \<Longrightarrow> mapGet m k = Some v \<Longrightarrow>
   filter (\<lambda>x. sameValueZero (dedupKey x) k) (map snd m) = [v]"
proof (induction m)
  case Nil
  then show ?case by simp
next
  case (Cons a m)
  obtain k' v' where a: "a = (k', v')" by (cases a)
  show ?case
  proof (cases "sameValueZero k' k")
    case True
    then have "\<forall>(k'', v'') \<in> set m. \<not> sameValueZero k'' k"
      using Cons.prems(1) a by (auto simp: sameValueZero_def)
    moreover have "\<forall>(k'', v'') \<in> set m. k'' = dedupKey v''"
      using Cons.prems(1) a by (induction m) auto
    ultimately have "filter (\<lambda>x. sameValueZero (dedupKey x) k) (map snd m) = []"
      by (fastforce simp: filter_empty_conv)
    then show ?thesis using Cons.prems a True by auto
  next
    case False
    then show ?thesis using Cons a by auto
  qed
qed

lemma winner_member:
  "mapGet (foldl mergeStep m xs) k = Some w \<Longrightarrow> w \<in> set xs \<or> mapGet m k = Some w"
proof (induction xs arbitrary: m)
  case Nil
  then show ?case by simp
next
  case (Cons x xs)
  from Cons.IH[of "mergeStep m x"] Cons.prems
  have "w \<in> set xs \<or> mapGet (mergeStep m x) k = Some w" by simp
  then show ?case
    by (auto simp: mapGet_mergeStep split: if_splits option.splits)
qed

lemma winner_grows:
  "mapGet m k = Some e \<Longrightarrow>
   \<exists>w. mapGet (foldl mergeStep m xs) k = Some w \<and> length (itemArray e) \<le> length (itemArray w)"
proof (induction xs arbitrary: m e)
  case Nil
  then show ?case by simp
next
  case (Cons x xs)
  have "\<exists>e'. mapGet (mergeStep m x) k = Some e' \<and> length (itemArray e) \<le> length (itemArray e')"
    using Cons.prems by (auto simp: mapGet_mergeStep)
  then obtain e' where e': "mapGet (mergeStep m x) k = Some e'"
    and le: "length (itemArray e) \<le> length (itemArray e')" by blast
  from Cons.IH[OF e'] obtain w where
    "mapGet (foldl mergeStep (mergeStep m x) xs) k = Some w"
    "length (itemArray e') \<le> length (itemArray w)" by blast
  with le show ?case by auto
qed

lemma winner_maximal:
  "x \<in> set xs \<Longrightarrow> sameValueZero (dedupKey x) k \<Longrightarrow>
   \<exists>w. mapGet (foldl mergeStep m xs) k = Some w \<and> length (itemArray x) \<le> length (itemArray w)"
proof (induction xs arbitrary: m)
  case Nil
  then show ?case by simp
next
  case (Cons y ys)
  show ?case
  proof (cases "x = y")
    case True
    have "\<exists>e'. mapGet (mergeStep m y) k = Some e' \<and> length (itemArray x) \<le> length (itemArray e')"
      using True Cons.prems(2) by (auto simp: mapGet_mergeStep split: option.splits)
    then obtain e' where e': "mapGet (mergeStep m y) k = Some e'"
      and le: "length (itemArray x) \<le> length (itemArray e')" by blast
    from winner_grows[OF e', of ys] le show ?thesis by auto
  next
    case False
    then have "x \<in> set ys" using Cons.prems by simp
    from Cons.IH[OF this Cons.prems(2), of "mergeStep m y"] show ?thesis by simp
  qed
qed

lemma winner_key:
  "wfMap m \<Longrightarrow> mapGet m k = Some w \<Longrightarrow> sameValueZero (dedupKey w) k"
  by (induction m) (auto split: if_splits)

lemma merge_longest:
  assumes r: "r \<in> set (concat rss)"
    and prim: "isPrimitive (dedupKey r)"
    and others: "\<forall>x \<in> set (concat rss). sameValueZero (dedupKey x) (dedupKey r) \<longrightarrow>
                   x = r \<or> length (itemArray x) < length (itemArray r)"
  shows "filter (\<lambda>x. sameValueZero (dedupKey x) (dedupKey r)) (mergeReceipts rss) = [r]"
proof -
  let ?m = "foldl mergeStep [] (concat rss)"
  have wf: "wfMap ?m" by (rule wfMap_foldl) simp
  have self: "sameValueZero (dedupKey r) (dedupKey r)" using prim by (simp add: sameValueZero_def)
  from winner_maximal[OF r self, of "[]"] obtain w where
    w: "mapGet ?m (dedupKey r) = Some w" and le: "length (itemArray r) \<le> length (itemArray w)"
    by blast
  from winner_member[OF w] have mem: "w \<in> set (concat rss)" by simp
  from winner_key[OF wf w] have key: "sameValueZero (dedupKey w) (dedupKey r)" .
  from others mem key have "w = r \<or> length (itemArray w) < length (itemArray r)" by blast
  with le have "w = r" by auto
  with wfMap_filter[OF wf w] show ?thesis by (simp add: mergeReceipts_concat)
qed

lemma merge_two_longer_second:
  assumes "sameValueZero (dedupKey r1) (dedupKey r2)" "length (itemArray r1) < length (itemArray r2)"
  shows "foldl mergeStep [] [r1, r2] = [(dedupKey r1, r2)]"
  using assms by (simp add: mergeStep_def Let_def)

lemma merge_two_longer_first:
  assumes "sameValueZero (dedupKey r1) (dedupKey r2)" "length (itemArray r2) \<le> length (itemArray r1)"
  shows "foldl mergeStep [] [r1, r2] = [(dedupKey r1, r1)]"
  using assms by (simp add: mergeStep_def Let_def)


lemma wfMap_key: "wfMap m \<Longrightarrow> (k, e) \<in> set m \<Longrightarrow> k = dedupKey e"
  by (induction m) auto

lemma wfMap_mapGet:
  "wfMap m \<Longrightarrow> (k, e) \<in> set m \<Longrightarrow> sameValueZero k k' \<Longrightarrow> mapGet m k' = Some e"
proof (induction m)
  case Nil
  then show ?case by simp
next
  case (Cons a m)
  obtain k0 v0 where a: "a = (k0, v0)" by (cases a)
  show ?case
  proof (cases "(k, e) = (k0, v0)")
    case True
    then show ?thesis using Cons.prems a by simp
  next
    case False
    then have mem: "(k, e) \<in> set m" using Cons.prems(2) a by auto
    have "\<not> sameValueZero k0 k" using Cons.prems(1) a mem by auto
    then have "\<not> sameValueZero k0 k'" using Cons.prems(3) by (auto simp: sameValueZero_def)
    then show ?thesis using Cons a mem by simp
  qed
qed

lemma wfMap_mapSet_values:
  "wfMap m \<Longrightarrow> mapGet m k = Some e \<Longrightarrow>
   map snd (mapSet m k v) =
     map (\<lambda>x. if sameValueZero (dedupKey x) k then v else x) (map snd m)"
proof (induction m)
  case Nil
  then show ?case by simp
next
  case (Cons a m)
  obtain k0 v0 where a: "a = (k0, v0)" by (cases a)
  show ?case
  proof (cases "sameValueZero k0 k")
    case True
    have "\<forall>(k', v') \<in> set m. \<not> sameValueZero (dedupKey v') k"
    proof -
      have "\<forall>(k', v') \<in> set m. \<not> sameValueZero k0 k'" using Cons.prems(1) a by auto
      moreover have "\<forall>(k', v') \<in> set m. k' = dedupKey v'"
        using Cons.prems(1) a wfMap_key[of m] by auto
      ultimately show ?thesis using True by (fastforce simp: sameValueZero_def)
    qed
    then have "map (\<lambda>x. if sameValueZero (dedupKey x) k then v else x) (map snd m) = map snd m"
      by (induction m) auto
    then show ?thesis using True Cons.prems(1) a by simp
  next
    case False
    then show ?thesis using Cons a by simp
  qed
qed

lemma wfMap_merged: "wfMap (foldl mergeStep [] xs)"
  by (rule wfMap_foldl) simp

lemma merge_append_duplicate:
  assumes same: "sameValueZero (dedupKey e) (dedupKey r)"
    and mem: "e \<in> set (mergeReceipts [xs])"
  shows "mergeReceipts [xs @ [r]] =
           (if length (itemArray e) < length (itemArray r)
            then map (\<lambda>x. if sameValueZero (dedupKey x) (dedupKey r) then r else x)
                   (mergeReceipts [xs])
            else mergeReceipts [xs])"
proof -
  let ?m = "foldl mergeStep [] xs"
  have wf: "wfMap ?m" by (rule wfMap_merged)
  from mem obtain k where k: "(k, e) \<in> set ?m" by (auto simp: mergeReceipts_def)
  have "k = dedupKey e" using wf k by (rule wfMap_key)
  with same have "sameValueZero k (dedupKey r)" by simp
  from wfMap_mapGet[OF wf k this] have get: "mapGet ?m (dedupKey r) = Some e" .
  have "mergeReceipts [xs @ [r]] = map snd (mergeStep ?m r)" by (simp add: mergeReceipts_def)
  then show ?thesis
    using get wfMap_mapSet_values[OF wf get, of r]
    by (simp add: mergeStep_def Let_def mergeReceipts_def)
qed

lemma ex_same_key:
  "sameValueZero (dedupKey exShort) (dedupKey exLong)"
  "sameValueZero (dedupKey exShort) (dedupKey exTie)"
  by (simp_all add: sameValueZero_def dedupKey_def exShort_def exLong_def exTie_def exReceipt_def
        jsOr_def)

lemma ex_lengths:
  "length (itemArray exShort) = 1" "length (itemArray exLong) = 2" "length (itemArray exTie) = 1"
  by (simp_all add: exShort_def exLong_def exTie_def)

text \<open>
  C6. Two receipts with the same dedup key and item arrays of different lengths: from
  any input that consists of the two, in either order and however split into files,
  \<open>mergeReceipts\<close> returns the one with the longer item array. More generally, from any
  input, a receipt whose item array is strictly longer than that of every other receipt
  with its key is the one receipt of that key in the output.
\<close>

theorem merge_retains_longer:
  assumes same: "sameValueZero (dedupKey r1) (dedupKey r2)"
    and len: "length (itemArray r1) < length (itemArray r2)"
  shows "(concat rss = [r1, r2] \<or> concat rss = [r2, r1] \<longrightarrow> mergeReceipts rss = [r2])
       \<and> (r2 \<in> set (concat rss)
            \<and> (\<forall>x \<in> set (concat rss). sameValueZero (dedupKey x) (dedupKey r2) \<longrightarrow>
                  x = r2 \<or> length (itemArray x) < length (itemArray r2))
          \<longrightarrow> filter (\<lambda>x. sameValueZero (dedupKey x) (dedupKey r2)) (mergeReceipts rss) = [r2])"
proof -
  have prim: "isPrimitive (dedupKey r2)"
    using same by (auto simp: sameValueZero_def)
  have "mergeReceipts rss = [r2]" if "concat rss = [r1, r2]"
    using that merge_two_longer_second[OF same len] by (simp add: mergeReceipts_concat)
  moreover have "mergeReceipts rss = [r2]" if "concat rss = [r2, r1]"
    using that merge_two_longer_first[OF sameValueZero_sym[OF same], of ] len
    by (simp add: mergeReceipts_concat)
  ultimately show ?thesis using merge_longest[OF _ prim] by blast
qed

theorem merge_retains_longer_witness:
  "mergeReceipts [[exShort, exLong]] = [exLong]
   \<and> mergeReceipts [[exLong, exShort]] = [exLong]
   \<and> mergeReceipts [[exLong], [exShort]] = [exLong]"
proof -
  have len: "length (itemArray exShort) < length (itemArray exLong)" by (simp add: ex_lengths)
  note t = merge_retains_longer[OF ex_same_key(1) len]
  show ?thesis
    using t[of "[[exShort, exLong]]"] t[of "[[exLong, exShort]]"] t[of "[[exLong], [exShort]]"]
    by simp
qed

text \<open>
  C10. A receipt whose key is already in the map replaces the kept one only when its item
  array is strictly longer. With equal lengths the first-encountered receipt is kept and
  the later one is discarded: from the two receipts in this order the output is the
  first; and appending a receipt to any input changes the output only where it is
  strictly longer than the receipt kept for its key, which it then replaces in place.
\<close>

theorem merge_tie_keeps_first:
  assumes same: "sameValueZero (dedupKey r1) (dedupKey r2)"
  shows "(length (itemArray r2) = length (itemArray r1) \<and> concat rss = [r1, r2]
            \<longrightarrow> mergeReceipts rss = [r1])
       \<and> (r1 \<in> set (mergeReceipts [xs]) \<longrightarrow>
            mergeReceipts [xs @ [r2]] =
              (if length (itemArray r1) < length (itemArray r2)
               then map (\<lambda>x. if sameValueZero (dedupKey x) (dedupKey r2) then r2 else x)
                      (mergeReceipts [xs])
               else mergeReceipts [xs]))"
proof -
  have "mergeReceipts rss = [r1]"
    if "length (itemArray r2) = length (itemArray r1)" "concat rss = [r1, r2]"
    using that merge_two_longer_first[OF same] by (simp add: mergeReceipts_concat)
  then show ?thesis using merge_append_duplicate[OF same] by blast
qed

theorem merge_tie_keeps_first_witness:
  "mergeReceipts [[exShort, exTie]] = [exShort]
   \<and> mergeReceipts [[exTie, exShort]] = [exTie]
   \<and> mergeReceipts [[exShort] @ [exTie]] = mergeReceipts [[exShort]]"
proof -
  have a: "mergeReceipts [[exShort, exTie]] = [exShort]"
    using merge_tie_keeps_first[OF ex_same_key(2), of "[[exShort, exTie]]"]
    by (simp add: ex_lengths)
  have b: "mergeReceipts [[exTie, exShort]] = [exTie]"
    using merge_tie_keeps_first[OF sameValueZero_sym[OF ex_same_key(2)], of "[[exTie, exShort]]"]
    by (simp add: ex_lengths)
  have one: "mergeReceipts [[exShort]] = [exShort]"
    by (simp add: mergeReceipts_def mergeStep_def Let_def)
  have c: "mergeReceipts [[exShort] @ [exTie]] = mergeReceipts [[exShort]]"
    using merge_tie_keeps_first[OF ex_same_key(2), of _ "[exShort]"] one
    by (simp add: ex_lengths)
  from a b c show ?thesis by simp
qed

section \<open>Validator: when a file is accepted\<close>

lemma validateReceipt_error: "validateReceipt ex r i = Inl e \<Longrightarrow> e = TypeError"
  unfolding validateReceipt_def totalMismatch_def
  by (auto simp: Let_def split: if_splits sum.splits)

lemma validateLoop_no_throw:
  "\<not> list_ex (\<lambda>ir. validateReceipt ex (snd ir) (fst ir) = Inl TypeError) irs \<Longrightarrow>
   validateLoop ex (vs, es, ws) irs =
     Inr (vs @ map snd (filter (passes ex) irs),
          es @ concat (map (\<lambda>(i, r). case validateReceipt ex r i of
                                        Inl e \<Rightarrow> []
                                      | Inr v \<Rightarrow> if valid v then [] else errors v) irs),
          ws @ concat (map (\<lambda>(i, r). case validateReceipt ex r i of
                                        Inl e \<Rightarrow> []
                                      | Inr v \<Rightarrow> warnings v) irs))"
proof (induction irs arbitrary: vs es ws)
  case Nil
  then show ?case by simp
next
  case (Cons ir irs)
  obtain i r where ir: "ir = (i, r)" by (cases ir)
  from Cons.prems ir have "validateReceipt ex r i \<noteq> Inl TypeError" by simp
  then obtain v where v: "validateReceipt ex r i = Inr v"
    using validateReceipt_error[of ex r i] by (cases "validateReceipt ex r i") auto
  from Cons.prems have rest: "\<not> list_ex (\<lambda>ir. validateReceipt ex (snd ir) (fst ir) = Inl TypeError) irs"
    by simp
  show ?case
    using Cons.IH[OF rest] ir v
    by (simp add: validateStep_def passes_def)
qed

lemma validateLoop_throw:
  "list_ex (\<lambda>ir. validateReceipt ex (snd ir) (fst ir) = Inl TypeError) irs \<Longrightarrow>
   validateLoop ex st irs = Inl TypeError"
proof (induction irs arbitrary: st)
  case Nil
  then show ?case by simp
next
  case (Cons ir irs)
  obtain i r where ir: "ir = (i, r)" by (cases ir)
  obtain vs es ws where st: "st = (vs, es, ws)" by (cases st)
  show ?case
  proof (cases "validateReceipt ex r i")
    case (Inl e)
    then have "e = TypeError" by (rule validateReceipt_error)
    with Inl ir st show ?thesis by (simp add: validateStep_def)
  next
    case (Inr v)
    with Cons.prems ir
    have "list_ex (\<lambda>ir. validateReceipt ex (snd ir) (fst ir) = Inl TypeError) irs" by simp
    from Cons.IH[OF this] Inr ir st show ?thesis by (simp add: validateStep_def)
  qed
qed

lemma validReceiptsOf_length: "length (validReceiptsOf ex rs) \<le> length rs"
proof -
  have "length (validReceiptsOf ex rs) \<le> length (enumerate 0 rs)"
    unfolding validReceiptsOf_def by (simp del: length_enumerate)
  then show ?thesis by simp
qed

lemma validateJSONStructure_array:
  "rs \<noteq> [] \<Longrightarrow> \<not> someReceiptThrows ex rs \<Longrightarrow>
   validateJSONStructure ex (JArr rs) fname =
     Inr \<lparr> valid = (validReceiptsOf ex rs \<noteq> []),
           errors = concat (map (\<lambda>(i, r). case validateReceipt ex r i of
                                           Inl e \<Rightarrow> []
                                         | Inr v \<Rightarrow> if valid v then [] else errors v)
                                (enumerate 0 rs)),
           warnings = concat (map (\<lambda>(i, r). case validateReceipt ex r i of
                                             Inl e \<Rightarrow> []
                                           | Inr v \<Rightarrow> warnings v)
                                  (enumerate 0 rs)),
           receipts = validReceiptsOf ex rs,
           totalCount = Some (length rs),
           validCount = Some (length (validReceiptsOf ex rs)),
           invalidCount = Some (length rs - length (validReceiptsOf ex rs)),
           filename = Some fname \<rparr>"
  by (simp add: validateJSONStructure_def validateLoop_no_throw validReceiptsOf_def
        someReceiptThrows_def)

lemma validateJSONStructure_empty:
  "validateJSONStructure ex (JArr []) fname =
     Inr \<lparr> valid = False, errors = [ArrayEmpty fname], warnings = [], receipts = [],
           totalCount = None, validCount = None, invalidCount = None, filename = None \<rparr>"
  by (simp add: validateJSONStructure_def)

text \<open>
  \<open>validateReceipt\<close> throws exactly on an object or array whose \<open>transactionType\<close> is
  unexpected and has no primitive value, or whose \<open>subTotal\<close>, \<open>taxes\<close> and \<open>total\<close> are
  truthy and one of them, or a truthy \<open>orderDiscountAmount\<close>, has none.
\<close>

lemma validateReceipt_throws_iff:
  "validateReceipt ex r i = Inl TypeError \<longleftrightarrow>
     truthy r \<and> typeofObject r
     \<and> (truthy (getProp r ''transactionType'') \<and> getProp r ''transactionType'' \<notin> set validTypes
          \<and> toPrimitiveThrows (getProp r ''transactionType'')
        \<or> truthy (getProp r ''subTotal'') \<and> truthy (getProp r ''taxes'')
          \<and> truthy (getProp r ''total'')
          \<and> (toPrimitiveThrows (getProp r ''subTotal'') \<or> toPrimitiveThrows (getProp r ''taxes'')
               \<or> toPrimitiveThrows (jsOr (getProp r ''orderDiscountAmount'') (JNum 0))
               \<or> toPrimitiveThrows (getProp r ''total'')))"
  unfolding validateReceipt_def totalMismatch_def
  by (auto simp: Let_def split: if_splits sum.splits)

text \<open>
  \<open>validateJSONStructure\<close> throws exactly when the check of one of the receipts does.
  Whenever it returns, it rejects the file exactly when the root is not an array, or is
  the empty array, or none of its receipts passes \<open>validateReceipt\<close>; and when at least
  one receipt passes, the file is accepted, \<open>receipts\<close> holds the passing receipts and
  only them, in their order, and \<open>validCount\<close> and \<open>invalidCount\<close> are the numbers of
  passing and failing receipts.
\<close>

lemma validateJSONStructure_throws_iff:
  "validateJSONStructure ex data fname = Inl e \<longleftrightarrow>
     e = TypeError \<and> (\<exists>rs. data = JArr rs \<and> someReceiptThrows ex rs)"
proof (cases data)
  case (JArr rs)
  show ?thesis
  proof (cases "someReceiptThrows ex rs")
    case True
    then have "rs \<noteq> []" by (auto simp: someReceiptThrows_def)
    with True JArr show ?thesis
      by (auto simp: validateJSONStructure_def someReceiptThrows_def validateLoop_throw)
  next
    case False
    show ?thesis
    proof (cases "rs = []")
      case True
      with JArr False show ?thesis by (simp add: validateJSONStructure_def)
    next
      case ne: False
      from validateJSONStructure_array[OF ne False, of fname] JArr False
      show ?thesis by simp
    qed
  qed
qed (simp_all add: validateJSONStructure_def)

lemma validateJSONStructure_verdict:
  assumes "validateJSONStructure ex data fname = Inr v"
  shows "(\<not> valid v
            \<longleftrightarrow> (\<not> isArray data \<or> data = JArr [] \<or> (\<exists>rs. data = JArr rs \<and> validReceiptsOf ex rs = [])))
         \<and> (\<forall>rs. data = JArr rs \<and> validReceiptsOf ex rs \<noteq> [] \<longrightarrow>
               valid v
               \<and> receipts v = validReceiptsOf ex rs
               \<and> validCount v = Some (length (validReceiptsOf ex rs))
               \<and> invalidCount v = Some (length rs - length (validReceiptsOf ex rs))
               \<and> length (validReceiptsOf ex rs) \<le> length rs)"
proof (cases data)
  case (JArr rs)
  show ?thesis
  proof (cases "rs = []")
    case True
    then show ?thesis using JArr assms
      by (auto simp: validateJSONStructure_def validReceiptsOf_def)
  next
    case False
    have nt: "\<not> someReceiptThrows ex rs"
      using assms JArr validateJSONStructure_throws_iff[of ex data fname TypeError] by auto
    show ?thesis
      using JArr assms validateJSONStructure_array[OF False nt, of fname]
            validReceiptsOf_length[of ex rs]
      by auto
  qed
qed (insert assms, auto simp: validateJSONStructure_def)

lemma scenario_file_verdict:
  "validateJSONStructure exampleExceeds (JArr [scenarioReceipt, JNum 5, JObj []]) ''receipts.json''
     = Inr \<lparr> valid = True,
             errors = [NotObject 1,
                       MissingField 2 ''transactionType'', MissingField 2 ''total'',
                       MissingField 2 ''itemArray'', MissingField 2 ''warehouseNumber'',
                       MissingDate 2, TotalNotNumber 2, WarehouseNotNumber 2,
                       ItemArrayNotArray 2],
             warnings = [],
             receipts = [scenarioReceipt],
             totalCount = Some 3, validCount = Some 1, invalidCount = Some 2,
             filename = Some ''receipts.json'' \<rparr>"
  by code_simp

text \<open>
  C8. The claim holds wherever \<open>validateJSONStructure\<close> returns, but the function does
  not always return. The file below has the scenario receipt, which passes, and a second
  receipt that has every required field and whose \<open>transactionType\<close> is the object
  \<open>{"toString": 0}\<close>. With the text \<open>Odd\<close> in that place the second receipt passes too,
  with a warning, and the file is accepted with both. With the object, building the
  warning throws a \<open>TypeError\<close>, and the call returns nothing: the file is not accepted
  with its valid receipts.
\<close>

theorem validateJSONStructure_throws:
  "validateJSONStructure exampleExceeds (JArr [scenarioReceipt]) ''receipts.json''
     = Inr \<lparr> valid = True, errors = [], warnings = [], receipts = [scenarioReceipt],
             totalCount = Some 1, validCount = Some 1, invalidCount = Some 0,
             filename = Some ''receipts.json'' \<rparr>
   \<and> validateReceipt exampleExceeds
        (JObj [(''transactionType'', JStr ''Odd''), (''transactionDate'', JStr ''2024-03-16''),
               (''warehouseNumber'', JNum 847), (''total'', JNum 5), (''itemArray'', JArr [])]) 1
     = Inr \<lparr> valid = True, errors = [],
             warnings = [ItemArrayEmpty 1, UnexpectedType 1 (JStr ''Odd'')] \<rparr>
   \<and> validateReceipt exampleExceeds exOddType 1 = Inl TypeError
   \<and> validateJSONStructure exampleExceeds (JArr [scenarioReceipt, exOddType]) ''receipts.json''
     = Inl TypeError"
  by code_simp

lemma odd_file_valid_receipts:
  "validReceiptsOf exampleExceeds [scenarioReceipt, exOddType] = [scenarioReceipt]"
  by code_simp

text \<open>
  At that file one receipt passes the check and the call throws; had it returned, its
  verdict would have been to accept.
\<close>

theorem validateJSONStructure_throws_witness:
  "validReceiptsOf exampleExceeds [scenarioReceipt, exOddType] = [scenarioReceipt]
   \<and> someReceiptThrows exampleExceeds [scenarioReceipt, exOddType]
   \<and> validateJSONStructure exampleExceeds (JArr [scenarioReceipt, exOddType]) ''receipts.json''
       = Inl TypeError"
  using validateJSONStructure_throws odd_file_valid_receipts
        validateJSONStructure_throws_iff
          [of exampleExceeds "JArr [scenarioReceipt, exOddType]" "''receipts.json''" TypeError]
  by simp

section \<open>Filter engine: receipts without a date\<close>

lemma applyFilters_within_date_range:
  assumes "st_dateStart st \<noteq> None \<or> st_dateEnd st \<noteq> None"
  shows "set (applyFilters h st rs) \<subseteq> set (filter (inDateRange st) rs)"
  using assms unfolding applyFilters_def Let_def
  by (auto split: option.splits if_splits)

lemma inDateRange_null: "transactionDateTime r = None \<Longrightarrow> \<not> inDateRange st r"
  by (simp add: inDateRange_def)

text \<open>
  C9. When the start or the end of the date range is set, no receipt whose
  \<open>transactionDateTime\<close> is \<open>null\<close> is in the result of \<open>applyFilters\<close>, whatever the
  other criteria are.
\<close>

theorem applyFilters_excludes_null_dates:
  assumes "st_dateStart st \<noteq> None \<or> st_dateEnd st \<noteq> None"
  shows "\<forall>r \<in> set (applyFilters h st rs). transactionDateTime r \<noteq> None"
  using applyFilters_within_date_range[OF assms, of h rs] inDateRange_null by fastforce

lemma exFilter_result: "applyFilters exampleHost exFilter [exNoDate, exReceipt] = [exReceipt]"
  by code_simp

theorem applyFilters_excludes_null_dates_witness:
  "st_dateStart exFilter \<noteq> None
   \<and> transactionDateTime exNoDate = None
   \<and> applyFilters exampleHost exFilter [exNoDate, exReceipt] = [exReceipt]
   \<and> exNoDate \<notin> set (applyFilters exampleHost exFilter [exNoDate, exReceipt])"
proof -
  have a: "st_dateStart exFilter \<noteq> None" by (simp add: exFilter_def)
  have b: "transactionDateTime exNoDate = None" by (simp add: exNoDate_def)
  from applyFilters_excludes_null_dates[of exFilter exampleHost "[exNoDate, exReceipt]"] a b
  have "exNoDate \<notin> set (applyFilters exampleHost exFilter [exNoDate, exReceipt])" by auto
  with a b exFilter_result show ?thesis by simp
qed

section \<open>Aggregator: the executive reward\<close>













section \<open>Aggregator: net and gross spend\<close>











section \<open>The end-to-end scenario\<close>

lemma cleanText_examples:
  "cleanText (JStr []) = []"
  "cleanText (JStr ''KS TOWELS'') = ''KS TOWELS''"
  "cleanText (JStr ''/111'') = ''/111''"
  "cleanText (JStr ''SEATTLE'') = ''SEATTLE''"
  by code_simp+

lemma round2_examples:
  "round2 (1999 / 100) = 1999 / 100" "round2 (- 2) = - 2"
  "round2 (2137 / 100) = 2137 / 100" "round2 (138 / 100) = 138 / 100" "round2 2 = 2"
  "round2 (2137 / 100 / 2) = 1069 / 100"
  by code_simp+

lemma matchRef_example: "matchRef ''/111'' = Some ''111''"
  by code_simp

lemma scenario_items:
  "mapE (normalizeItem h) [scenarioItem, scenarioDiscount] = Inr scenarioItems"
  by (simp add: scenarioItem_def scenarioDiscount_def scenarioItems_def normalizeItem_def jsOr_def
        numberOr_def cleanText_examples matchRef_example round2_examples hasItemReference_def
        isDiscountOf_def isReturn_def discountRef_def refSource_def normalizedNameOf_def
        unitPriceOf_def Let_def
        del: cleanText.simps matchRef.simps)

lemma scenario_fields:
  "getProp scenarioReceipt ''itemArray'' = JArr [scenarioItem, scenarioDiscount]"
  "getProp scenarioReceipt ''transactionDate'' = JStr ''2024-03-15''"
  "getProp scenarioReceipt ''transactionDateTime'' = JStr ''2024-03-15T14:30:00''"
  "getProp scenarioReceipt ''transactionDateISO'' = JUndefined"
  "getProp scenarioReceipt ''transactionType'' = JStr ''Sales''"
  "getProp scenarioReceipt ''warehouseNumber'' = JNum 847"
  "getProp scenarioReceipt ''warehouseName'' = JStr ''SEATTLE''"
  "getProp scenarioReceipt ''transactionNumber'' = JNum 1001"
  "getProp scenarioReceipt ''receiptType'' = JStr ''In-Warehouse''"
  "getProp scenarioReceipt ''total'' = JNum (2137 / 100)"
  "getProp scenarioReceipt ''subTotal'' = JNum (1999 / 100)"
  "getProp scenarioReceipt ''taxes'' = JNum (138 / 100)"
  "getProp scenarioReceipt ''channel'' = JUndefined"
  "getProp scenarioReceipt ''documentType'' = JUndefined"
  "getProp scenarioReceipt ''orderDiscountAmount'' = JUndefined"
  "getProp scenarioReceipt ''warehouseCity'' = JUndefined"
  "getProp scenarioReceipt ''warehouseState'' = JUndefined"
  "getProp scenarioReceipt ''warehouseProvince'' = JUndefined"
  "getProp scenarioReceipt ''warehouseCountry'' = JUndefined"
  "getProp scenarioReceipt ''warehouseFullAddress'' = JUndefined"
  "getProp scenarioReceipt ''tenderArray'' = JUndefined"
  "getProp scenarioReceipt ''couponArray'' = JUndefined"
  "getProp scenarioReceipt ''membershipNumber'' = JUndefined"
  "getProp scenarioReceipt ''totalItemCount'' = JUndefined"
  "getProp scenarioReceipt ''subTaxes'' = JUndefined"
  "nullish scenarioReceipt = False"
  by (simp_all add: scenarioReceipt_def)

lemma scenario_normalized:
  "normalizeReceipt h now scenarioReceipt 0 fname = Inr (scenarioNormalized h now fname)"
  unfolding normalizeReceipt_def generateReceiptId_def scenario_fields
  by (simp add: scenario_items scenarioNormalized_def scenarioItems_def jsOr_def numberOr_def
        isOnlineOrder_def scenario_fields sumDiscounts_def cleanText_examples Let_def
        del: cleanText.simps mapE.simps)

lemma round2_more:
  "round2 (69 / 50) = 69 / 50" "round2 (2137 / 200) = 1069 / 100" "round2 0 = 0"
  by code_simp+

lemma scenario_tally:
  "foldl (receiptStep h) tally0 [scenarioNormalized h now fname] =
     \<lparr> t_warehouseVisits = 1, t_onlineOrders = 0, t_totalTaxes = 138 / 100, t_totalSavings = 2,
       t_salesReceipts = 1, t_refundReceipts = 0, t_refundAmount = 0, t_refundItemCount = 0,
       t_grossSpent = 2137 / 100, t_refundSpent = 0, t_totalPurchaseCount = 2,
       uniqueItemsSet = [''111'', ''356994''], uniqueReturnedItemsSet = [],
       itemNetQuantities = [(''111'', 1), (''356994'', 1)] \<rparr>"
  by (simp add: receiptStep_def itemStep_def tally0_def isRefund_def
        channelOf_def quantity_def setAdd_def numberOr_def jsOr_def scenarioNormalized_def
        scenarioItems_def Let_def)

lemma scenario_totals:
  "calculateTotals h [scenarioNormalized h now fname] =
     \<lparr> totalSpent = 2137 / 100, netSpent = 2137 / 100, grossSpent = 2137 / 100,
       totalItems = None, totalReceipts = 1, warehouseVisits = 1,
       onlineOrders = 0, totalTaxes = 138 / 100, totalSavings = 2,
       salesReceipts = 1, refundReceipts = 0, refundAmount = 0,
       refundItemCount = 0, uniqueReturnedItems = Some 0, refundSpent = Some 0,
       totalPurchaseCount = 2, uniqueItems = 2, netUniqueItems = 2,
       avgPricePerItem = 1069 / 100 \<rparr>"
  unfolding calculateTotals_def scenario_tally
  by (simp add: round2_examples round2_more Let_def)

text \<open>
  C1, as amended. The scenario receipt normalizes without a throw, and
  \<open>calculateTotals\<close> on it returns \<open>grossSpent = 21.37\<close>, \<open>totalSavings = 2.00\<close>,
  \<open>totalTaxes = 1.38\<close>, \<open>uniqueItems = 2\<close> (the discount line has an item number of
  its own and is counted), a purchase count of 2 and \<open>avgPricePerItem = 10.69\<close>, the
  gross spend divided by the purchase count, rounded to cents.
\<close>

theorem scenario_totals_amended:
  "normalizeReceipt h now scenarioReceipt 0 fname = Inr (scenarioNormalized h now fname)
   \<and> grossSpent (calculateTotals h [scenarioNormalized h now fname]) = 2137 / 100
   \<and> totalSavings (calculateTotals h [scenarioNormalized h now fname]) = 2
   \<and> totalTaxes (calculateTotals h [scenarioNormalized h now fname]) = 138 / 100
   \<and> uniqueItems (calculateTotals h [scenarioNormalized h now fname]) = 2
   \<and> totalPurchaseCount (calculateTotals h [scenarioNormalized h now fname]) = 2
   \<and> avgPricePerItem (calculateTotals h [scenarioNormalized h now fname]) = 1069 / 100
   \<and> avgPricePerItem (calculateTotals h [scenarioNormalized h now fname])
       = round2 (grossSpent (calculateTotals h [scenarioNormalized h now fname])
                 / totalPurchaseCount (calculateTotals h [scenarioNormalized h now fname]))"
  by (simp add: scenario_normalized scenario_totals round2_more)

theorem scenario_totals_amended_witness:
  "normalizeReceipt exampleHost 1710500000000 scenarioReceipt 0 ''receipts.json''
     = Inr (scenarioNormalized exampleHost 1710500000000 ''receipts.json'')
   \<and> grossSpent (calculateTotals exampleHost
         [scenarioNormalized exampleHost 1710500000000 ''receipts.json'']) = 2137 / 100
   \<and> totalSavings (calculateTotals exampleHost
         [scenarioNormalized exampleHost 1710500000000 ''receipts.json'']) = 2
   \<and> totalTaxes (calculateTotals exampleHost
         [scenarioNormalized exampleHost 1710500000000 ''receipts.json'']) = 138 / 100
   \<and> uniqueItems (calculateTotals exampleHost
         [scenarioNormalized exampleHost 1710500000000 ''receipts.json'']) = 2
   \<and> avgPricePerItem (calculateTotals exampleHost
         [scenarioNormalized exampleHost 1710500000000 ''receipts.json'']) = 1069 / 100"
  using scenario_totals_amended[of exampleHost 1710500000000 "''receipts.json''"]
  by blast

text \<open>
  C1 as stated fails: on the scenario receipt \<open>calculateTotals\<close> returns
  \<open>uniqueItems = 2\<close> (the discount line is counted) and \<open>avgPricePerItem = 10.69\<close>
  (21.37 over a purchase count of 2), not 1 and 19.99.
\<close>

theorem scenario_totals_counterexample:
  "(case normalizeReceipt exampleHost 1710500000000 scenarioReceipt 0 ''receipts.json'' of
      Inl e \<Rightarrow> False
    | Inr r \<Rightarrow>
        uniqueItems (calculateTotals exampleHost [r]) = 2
        \<and> avgPricePerItem (calculateTotals exampleHost [r]) = 1069 / 100
        \<and> \<not> (uniqueItems (calculateTotals exampleHost [r]) = 1
              \<and> avgPricePerItem (calculateTotals exampleHost [r]) = 1999 / 100))"
  by (simp add: scenario_normalized scenario_totals)

section \<open>Normalizing a second time\<close>

lemma renormalize:
  assumes "normalizeReceipt h now raw index fname = Inr n"
  shows "original n = raw"
    and "normalizeReceipt h now' (original n) index fname = Inr (n\<lparr> processedAt := TimeValue now' \<rparr>)"
proof -
  show o: "original n = raw"
    using assms unfolding normalizeReceipt_def
    by (auto split: if_splits sum.splits)
  show "normalizeReceipt h now' (original n) index fname = Inr (n\<lparr> processedAt := TimeValue now' \<rparr>)"
    unfolding o using assms unfolding normalizeReceipt_def
    by (auto split: if_splits sum.splits)
qed

lemma normalize_processedAt:
  "normalizeReceipt h now raw index fname = Inr n \<Longrightarrow> processedAt n = TimeValue now"
  unfolding normalizeReceipt_def by (auto split: if_splits sum.splits)

text \<open>
  C7, as amended. Normalizing the retained \<open>_original\<close> of a normalized receipt again,
  with the same index and source file, gives the first result in every field except
  \<open>processedAt\<close>, which is the clock reading of the second call; the two results are
  identical when both calls read the same clock value.
\<close>

theorem renormalize_identical_but_processedAt:
  assumes "normalizeReceipt h now raw index fname = Inr n"
  shows "normalizeReceipt h now' (original n) index fname
           = Inr (n\<lparr> processedAt := TimeValue now' \<rparr>)
       \<and> (now' = now \<longrightarrow> normalizeReceipt h now' (original n) index fname = Inr n)"
  using renormalize(2)[OF assms, of now'] normalize_processedAt[OF assms]
  by auto

theorem renormalize_identical_but_processedAt_witness:
  "normalizeReceipt exampleHost 1710500000001
      (original (scenarioNormalized exampleHost 1710500000000 ''receipts.json'')) 0 ''receipts.json''
     = Inr ((scenarioNormalized exampleHost 1710500000000 ''receipts.json'')
              \<lparr> processedAt := TimeValue 1710500000001 \<rparr>)
   \<and> normalizeReceipt exampleHost 1710500000000
      (original (scenarioNormalized exampleHost 1710500000000 ''receipts.json'')) 0 ''receipts.json''
     = Inr (scenarioNormalized exampleHost 1710500000000 ''receipts.json'')"
  using renormalize_identical_but_processedAt
          [OF scenario_normalized[of exampleHost 1710500000000 "''receipts.json''"],
           where now' = 1710500000001]
        renormalize_identical_but_processedAt
          [OF scenario_normalized[of exampleHost 1710500000000 "''receipts.json''"],
           where now' = 1710500000000]
  by blast

text \<open>
  C7 as stated fails: the second normalization, one millisecond later, is not the first.
\<close>

theorem renormalize_counterexample:
  "(case normalizeReceipt exampleHost 1710500000000 scenarioReceipt 0 ''receipts.json'' of
      Inl e \<Rightarrow> False
    | Inr n \<Rightarrow>
        normalizeReceipt exampleHost 1710500000001 (original n) 0 ''receipts.json'' \<noteq> Inr n)"
  by (simp add: scenario_normalized) (simp add: scenarioNormalized_def scenario_normalized)

section \<open>Aggregator: the cycle year of a date\<close>

lemma DaysInYear_cases: "DaysInYear y = 365 \<or> DaysInYear y = 366"
  by (simp add: DaysInYear_def)

lemma MakeDay_in_year:
  assumes "1 \<le> m" "m \<le> 12"
  shows "MakeDay Y (m - 1) d = DayFromYear Y + monthOffset (m - 1) (DaysInYear Y = 366) + d - 1"
proof -
  have "(m - 1) div 12 = 0" "(m - 1) mod 12 = m - 1"
    using assms by (simp_all add: div_pos_pos_trivial mod_pos_pos_trivial)
  then show ?thesis by (simp add: MakeDay_def Let_def)
qed

lemma month_cases:
  assumes "1 \<le> (m::int)" "m \<le> 12"
  shows "m = 1 \<or> m = 2 \<or> m = 3 \<or> m = 4 \<or> m = 5 \<or> m = 6 \<or> m = 7 \<or> m = 8 \<or> m = 9
         \<or> m = 10 \<or> m = 11 \<or> m = 12"
  using assms by arith

lemma day_in_year:
  assumes "1 \<le> m" "m \<le> 12" "1 \<le> d" "d \<le> DaysInMonth Y m"
  shows "0 \<le> monthOffset (m - 1) (DaysInYear Y = 366) + d - 1"
    and "monthOffset (m - 1) (DaysInYear Y = 366) + d - 1 < DaysInYear Y"
    and "m \<noteq> 1 \<or> d \<noteq> 1 \<Longrightarrow> 1 \<le> monthOffset (m - 1) (DaysInYear Y = 366) + d - 1"
  using month_cases[OF assms(1,2)] assms(3,4) DaysInYear_cases[of Y]
  by (auto simp: monthOffset_def DaysInMonth_def)

lemma div_day:
  assumes "n * msPerDay \<le> t" "t < (n + 1) * msPerDay"
  shows "t div msPerDay = n"
proof -
  have pos: "0 < msPerDay" by (simp add: msPerDay_def)
  define r where "r = t - n * msPerDay"
  have r: "0 \<le> r" "r < msPerDay" using assms by (simp_all add: r_def algebra_simps)
  have "t = r + n * msPerDay" by (simp add: r_def)
  moreover have "(r + n * msPerDay) div msPerDay = n"
    using r pos by (simp add: div_pos_pos_trivial)
  ultimately show ?thesis by simp
qed


lemma getFullYear_in_year:
  assumes "DayFromYear Y \<le> n" "n < DayFromYear (Y + 1)"
    and "n * msPerDay \<le> t" "t < (n + 1) * msPerDay"
  shows "getFullYear t = Y"
  unfolding getFullYear_def div_day[OF assms(3,4)]
  by (rule YearFromDay_unique[OF assms(1,2)])

lemma toInteger_of_int: "toInteger (of_int n) = n"
  by (simp add: toInteger_def)

lemma toInteger_of_int_pred: "toInteger (of_int n - 1) = n - 1"
proof -
  have "(of_int n - 1 :: rat) = of_int (n - 1)" by simp
  then show ?thesis by (simp only: toInteger_of_int)
qed

lemma newDate_plain:
  assumes "Y < 0 \<or> 99 < Y" "\<bar>MakeDay Y (m - 1) d * msPerDay\<bar> \<le> 8640000000000000"
  shows "newDate Y (of_int m - 1) (of_int d) = TimeValue (MakeDay Y (m - 1) d * msPerDay)"
  using assms by (auto simp: newDate_def toInteger_of_int toInteger_of_int_pred Let_def)

text \<open>
  The cycle-year boundary, for a cycle start that is a day of the calendar (month \<open>m\<close>
  from 1 to 12, day \<open>d\<close> within the month) and a year \<open>Y\<close> that is not one of 0 to
  99: a date on that day of year \<open>Y\<close>, at any time of the day, is in cycle year \<open>Y\<close>.
\<close>

lemma cycle_year_on_start:
  assumes m: "1 \<le> m" "m \<le> 12" and d: "1 \<le> d" "d \<le> DaysInMonth Y m"
    and Y: "Y < 0 \<or> 99 < Y"
    and t: "MakeDay Y (m - 1) d * msPerDay \<le> t" "t < (MakeDay Y (m - 1) d + 1) * msPerDay"
    and range: "\<bar>MakeDay Y (m - 1) d * msPerDay\<bar> \<le> 8640000000000000"
  shows "getCycleYear (of_int m) (of_int d) (Some (TimeValue t)) = Some Y"
proof -
  let ?n = "MakeDay Y (m - 1) d"
  have n: "?n = DayFromYear Y + monthOffset (m - 1) (DaysInYear Y = 366) + d - 1"
    by (rule MakeDay_in_year[OF m])
  have "DayFromYear Y \<le> ?n" using day_in_year(1)[OF m d] n by linarith
  moreover have "?n < DayFromYear (Y + 1)"
    using day_in_year(2)[OF m d] n DayFromYear_Suc[of Y] by linarith
  ultimately have fy: "getFullYear t = Y" using t by (rule getFullYear_in_year)
  show ?thesis
    using t(1) by (simp add: getCycleYear_def fy newDate_plain[OF Y range] Let_def)
qed

text \<open>
  And the date one day earlier is in cycle year \<open>Y - 1\<close>, when \<open>Y - 1\<close> is not one of
  0 to 99 either.
\<close>

lemma cycle_year_day_before:
  assumes m: "1 \<le> m" "m \<le> 12" and d: "1 \<le> d" "d \<le> DaysInMonth Y m"
    and Y: "Y - 1 < 0 \<or> 99 < Y - 1" "Y < 0 \<or> 99 < Y"
    and t: "MakeDay Y (m - 1) d * msPerDay \<le> t" "t < (MakeDay Y (m - 1) d + 1) * msPerDay"
    and range: "\<bar>MakeDay Y (m - 1) d * msPerDay\<bar> \<le> 8640000000000000"
      "\<bar>MakeDay (Y - 1) (m - 1) d * msPerDay\<bar> \<le> 8640000000000000"
  shows "getCycleYear (of_int m) (of_int d) (Some (TimeValue (t - msPerDay))) = Some (Y - 1)"
proof -
  let ?n = "MakeDay Y (m - 1) d"
  have pos: "0 < msPerDay" by (simp add: msPerDay_def)
  have n: "?n = DayFromYear Y + monthOffset (m - 1) (DaysInYear Y = 366) + d - 1"
    by (rule MakeDay_in_year[OF m])
  have t': "(?n - 1) * msPerDay \<le> t - msPerDay" "t - msPerDay < (?n - 1 + 1) * msPerDay"
    using t by (simp_all add: algebra_simps)
  show ?thesis
  proof (cases "m = 1 \<and> d = 1")
    case True
    then have n0: "?n = DayFromYear Y" using n by (simp add: monthOffset_def)
    have le: "DayFromYear (Y - 1) \<le> ?n - 1"
      using n0 DayFromYear_less[of "Y - 1"] by simp
    moreover have "?n - 1 < DayFromYear (Y - 1 + 1)" using n0 by simp
    ultimately have fy: "getFullYear (t - msPerDay) = Y - 1"
      using t' by (rule getFullYear_in_year)
    have s: "MakeDay (Y - 1) (m - 1) d = DayFromYear (Y - 1)"
      using True MakeDay_in_year[OF m, of "Y - 1" d] by (simp add: monthOffset_def)
    have "DayFromYear (Y - 1) * msPerDay \<le> (?n - 1) * msPerDay"
      using le pos by (simp add: mult_right_mono)
    with t'(1) have "DayFromYear (Y - 1) * msPerDay \<le> t - msPerDay" by linarith
    then show ?thesis
      using range(2)
      by (simp add: getCycleYear_def fy newDate_plain[OF Y(1) range(2)] s Let_def)
  next
    case False
    then have "1 \<le> monthOffset (m - 1) (DaysInYear Y = 366) + d - 1"
      using day_in_year(3)[OF m d] by blast
    then have "DayFromYear Y \<le> ?n - 1" using n by linarith
    moreover have "?n - 1 < DayFromYear (Y + 1)"
      using day_in_year(2)[OF m d] n DayFromYear_Suc[of Y] by linarith
    ultimately have fy: "getFullYear (t - msPerDay) = Y"
      using t' by (rule getFullYear_in_year)
    have "t - msPerDay < ?n * msPerDay" using t'(2) by simp
    then show ?thesis
      by (simp add: getCycleYear_def fy newDate_plain[OF Y(2) range(1)] Let_def)
  qed
qed

lemma exOld_rewards:
  "calculateExecutiveRewards exampleHost [exOld] exOptions =
     Inr \<lparr> byYear = [(49, \<lparr> subtotal = 1999 / 100, reward = 1999 / 5000 \<rparr>)],
           totalReward = 1999 / 5000, cycleStart = (3, 15) \<rparr>"
  by code_simp

text \<open>
  C5 on the code, at a date in a year from 0 to 99. The receipt is dated 15 March of the
  year 50 (the time value of the date string \<open>0050-03-15T12:00:00\<close>), and the cycle
  starts on 15 March. \<open>new Date(50, 2, 15)\<close> is 15 March 1950, which the date is before,
  so the receipt is put in cycle year 49 and not in cycle year 50.
\<close>

theorem cycle_year_two_digit_year:
  "isoLocal ''0050-03-15T12:00:00'' = Some (- 60582945600000)
   \<and> getFullYear (- 60582945600000) = 50
   \<and> MakeDay 50 (3 - 1) 15 * msPerDay \<le> - 60582945600000
   \<and> - 60582945600000 < (MakeDay 50 (3 - 1) 15 + 1) * msPerDay
   \<and> newDate 50 (3 - 1) 15 = TimeValue (MakeDay 1950 (3 - 1) 15 * msPerDay)
   \<and> getCycleYear 3 15 (Some (TimeValue (- 60582945600000))) = Some 49
   \<and> calculateExecutiveRewards exampleHost [exOld] exOptions =
       Inr \<lparr> byYear = [(49, \<lparr> subtotal = 1999 / 100, reward = 1999 / 5000 \<rparr>)],
             totalReward = 1999 / 5000, cycleStart = (3, 15) \<rparr>"
proof -
  have "isoLocal ''0050-03-15T12:00:00'' = Some (- 60582945600000)" by code_simp
  moreover have "getFullYear (- 60582945600000) = 50" by code_simp
  moreover have "MakeDay 50 (3 - 1) 15 * msPerDay \<le> - 60582945600000" by code_simp
  moreover have "- 60582945600000 < (MakeDay 50 (3 - 1) 15 + 1) * msPerDay" by code_simp
  moreover have "newDate 50 (3 - 1) 15 = TimeValue (MakeDay 1950 (3 - 1) 15 * msPerDay)"
    by code_simp
  moreover have "getCycleYear 3 15 (Some (TimeValue (- 60582945600000))) = Some 49"
    by code_simp
  ultimately show ?thesis using exOld_rewards by simp
qed

text \<open>The same receipt dated 15 March 2024 is in cycle year 2024, and a day earlier in 2023.\<close>

lemma cycle_year_2024:
  "getCycleYear 3 15 (Some (TimeValue (19797 * 86400000 + 52200000))) = Some 2024
   \<and> getCycleYear 3 15 (Some (TimeValue (19797 * 86400000 + 52200000 - msPerDay))) = Some 2023"
proof -
  have m: "(1::int) \<le> 3" "(3::int) \<le> 12" by simp_all
  have d: "(1::int) \<le> 15" "15 \<le> DaysInMonth 2024 3" by (simp_all add: DaysInMonth_def)
  have n: "MakeDay 2024 2 15 = 19797" by code_simp
  have t: "MakeDay 2024 (3 - 1) 15 * msPerDay \<le> 19797 * 86400000 + 52200000"
    "19797 * 86400000 + 52200000 < (MakeDay 2024 (3 - 1) 15 + 1) * msPerDay"
    by (simp_all add: n msPerDay_def)
  have r: "\<bar>MakeDay 2024 (3 - 1) 15 * msPerDay\<bar> \<le> 8640000000000000"
    by (simp add: n msPerDay_def)
  have n': "MakeDay 2023 2 15 = 19431" by code_simp
  have r': "\<bar>MakeDay (2024 - 1) (3 - 1) 15 * msPerDay\<bar> \<le> 8640000000000000"
    by (simp add: n' msPerDay_def)
  from cycle_year_on_start[OF m d _ t r]
       cycle_year_day_before[OF m d _ _ t r r']
  show ?thesis by simp
qed

end
